theory Spec2Isabelle
  imports Main
begin

section \<open>Python strings\<close>

text \<open>
  A Python \<^verbatim>\<open>str\<close> is a sequence of Unicode code points, so a string of the program is a
  list of code points. \<open>py\<close> turns an ASCII literal into such a string.
\<close>

type_synonym pystr = "nat list"

definition py :: "string \<Rightarrow> pystr" where
  "py s = map of_char s"

text \<open>
  \<^verbatim>\<open>str.isspace\<close> on one code point, which is also the class \<^verbatim>\<open>\s\<close> of \<^verbatim>\<open>re\<close> on a
  \<^verbatim>\<open>str\<close> pattern: U+0009..U+000D, U+001C..U+0020, U+0085, U+00A0, U+1680,
  U+2000..U+200A, U+2028, U+2029, U+202F, U+205F, U+3000.
\<close>

definition isspace :: "nat \<Rightarrow> bool" where
  "isspace c \<longleftrightarrow>
     (9 \<le> c \<and> c \<le> 13) \<or> (28 \<le> c \<and> c \<le> 32) \<or> c = 133 \<or> c = 160 \<or> c = 5760 \<or>
     (8192 \<le> c \<and> c \<le> 8202) \<or> c = 8232 \<or> c = 8233 \<or> c = 8239 \<or> c = 8287 \<or> c = 12288"

definition lstrip :: "pystr \<Rightarrow> pystr" where
  "lstrip s = dropWhile isspace s"

definition rstrip :: "pystr \<Rightarrow> pystr" where
  "rstrip s = rev (dropWhile isspace (rev s))"

text \<open>\<^verbatim>\<open>s.strip()\<close>\<close>

definition strip :: "pystr \<Rightarrow> pystr" where
  "strip s = rstrip (lstrip s)"

text \<open>\<^verbatim>\<open>s.startswith(p)\<close>\<close>

definition startswith :: "pystr \<Rightarrow> pystr \<Rightarrow> bool" where
  "startswith s p = (take (length p) s = p)"

text \<open>\<^verbatim>\<open>needle in hay\<close>\<close>

fun contains :: "pystr \<Rightarrow> pystr \<Rightarrow> bool" where
  "contains [] needle = (needle = [])"
| "contains (c # cs) needle = (startswith (c # cs) needle \<or> contains cs needle)"

text \<open>\<^verbatim>\<open>s.rstrip('/')\<close>\<close>

definition rstrip_slash :: "pystr \<Rightarrow> pystr" where
  "rstrip_slash s = rev (dropWhile (\<lambda>c. c = 47) (rev s))"

text \<open>\<^verbatim>\<open>s.split(sep)[0]\<close>: the text before the first occurrence of \<open>sep\<close>.\<close>

fun before_first :: "pystr \<Rightarrow> pystr \<Rightarrow> pystr" where
  "before_first sep [] = []"
| "before_first sep (c # cs) =
     (if startswith (c # cs) sep then [] else c # before_first sep cs)"

section \<open>What the program takes from its libraries\<close>

text \<open>
  The Unicode database of the interpreter and the public-suffix list of \<^verbatim>\<open>tldextract\<close>
  are tables the repository does not hold; the program is modelled for any such tables,
  collected in a record:
  \<^item> \<open>isalnum\<close>: \<^verbatim>\<open>str.isalnum\<close> on one code point (with U+005F, the class \<^verbatim>\<open>\w\<close>);
  \<^item> \<open>decimal\<close>: the value of a decimal digit (the class \<^verbatim>\<open>\d\<close>, and \<^verbatim>\<open>int\<close>);
  \<^item> \<open>str_upper\<close>, \<open>str_lower\<close>: \<^verbatim>\<open>str.upper\<close> and \<^verbatim>\<open>str.lower\<close>;
  \<^item> \<open>tldextract\<close>: \<^verbatim>\<open>tldextract.extract\<close>, as (subdomain, domain, suffix).
\<close>

record runtime =
  isalnum :: "nat \<Rightarrow> bool"
  decimal :: "nat \<Rightarrow> nat option"
  str_upper :: "pystr \<Rightarrow> pystr"
  str_lower :: "pystr \<Rightarrow> pystr"
  tldextract :: "pystr \<Rightarrow> pystr \<times> pystr \<times> pystr"

definition word_char :: "runtime \<Rightarrow> nat \<Rightarrow> bool" where
  "word_char rt c = (isalnum rt c \<or> c = 95)"

definition digit :: "runtime \<Rightarrow> nat \<Rightarrow> bool" where
  "digit rt c = (decimal rt c \<noteq> None)"

section \<open>Regular expressions\<close>

text \<open>
  The patterns of the program are written with the combinators below, which follow the
  backtracking matcher of \<^verbatim>\<open>re\<close>. A matcher is given the text before the current
  position and the text from it on, and the continuation that matches the rest of the
  pattern; it answers with the first success in the order in which \<^verbatim>\<open>re\<close> tries the
  alternatives (a greedy repetition tries one more character first, a lazy one the
  continuation first).
\<close>

type_synonym 'a cont = "pystr \<Rightarrow> pystr \<Rightarrow> 'a option"

text \<open>One character of a class.\<close>

definition chr_if :: "(nat \<Rightarrow> bool) \<Rightarrow> 'a cont \<Rightarrow> 'a cont" where
  "chr_if P k b r = (case r of [] \<Rightarrow> None | c # cs \<Rightarrow> if P c then k (b @ [c]) cs else None)"

text \<open>\<^verbatim>\<open>P*\<close> and \<^verbatim>\<open>P+\<close>, greedy.\<close>

fun star :: "(nat \<Rightarrow> bool) \<Rightarrow> 'a cont \<Rightarrow> 'a cont" where
  "star P k b [] = k b []"
| "star P k b (c # cs) =
     (if P c then (case star P k (b @ [c]) cs of Some x \<Rightarrow> Some x | None \<Rightarrow> k b (c # cs))
      else k b (c # cs))"

definition plus :: "(nat \<Rightarrow> bool) \<Rightarrow> 'a cont \<Rightarrow> 'a cont" where
  "plus P k = chr_if P (star P k)"

text \<open>\<^verbatim>\<open>P*?\<close> and \<^verbatim>\<open>P+?\<close>, lazy.\<close>

fun lazy_star :: "(nat \<Rightarrow> bool) \<Rightarrow> 'a cont \<Rightarrow> 'a cont" where
  "lazy_star P k b [] = k b []"
| "lazy_star P k b (c # cs) =
     (case k b (c # cs) of Some x \<Rightarrow> Some x
      | None \<Rightarrow> if P c then lazy_star P k (b @ [c]) cs else None)"

definition lazy_plus :: "(nat \<Rightarrow> bool) \<Rightarrow> 'a cont \<Rightarrow> 'a cont" where
  "lazy_plus P k = chr_if P (lazy_star P k)"

text \<open>\<^verbatim>\<open>(?:m)?\<close> and \<^verbatim>\<open>P{1,2}\<close>, greedy.\<close>

definition opt :: "('a cont \<Rightarrow> 'a cont) \<Rightarrow> 'a cont \<Rightarrow> 'a cont" where
  "opt m k b r = (case m k b r of Some x \<Rightarrow> Some x | None \<Rightarrow> k b r)"

definition rep12 :: "(nat \<Rightarrow> bool) \<Rightarrow> 'a cont \<Rightarrow> 'a cont" where
  "rep12 P k = chr_if P (opt (chr_if P) k)"

text \<open>A literal string.\<close>

definition lit :: "pystr \<Rightarrow> 'a cont \<Rightarrow> 'a cont" where
  "lit s k b r = (if startswith r s then k (b @ s) (drop (length s) r) else None)"

text \<open>A capturing group: the continuation is given the text the group matched.\<close>

definition grp :: "('a cont \<Rightarrow> 'a cont) \<Rightarrow> (pystr \<Rightarrow> 'a cont) \<Rightarrow> 'a cont" where
  "grp m k b r = m (\<lambda>b' r'. k (drop (length b) b') b' r') b r"

text \<open>The end of a pattern whose result is one group.\<close>

definition ret :: "pystr \<Rightarrow> pystr cont" where
  "ret g b r = Some g"

text \<open>\<^verbatim>\<open>\b\<close>: exactly one of the two neighbours is a word character.\<close>

definition at_boundary :: "runtime \<Rightarrow> pystr \<Rightarrow> pystr \<Rightarrow> bool" where
  "at_boundary rt b r =
     ((b \<noteq> [] \<and> word_char rt (last b)) \<noteq> (r \<noteq> [] \<and> word_char rt (hd r)))"

definition bdry :: "runtime \<Rightarrow> 'a cont \<Rightarrow> 'a cont" where
  "bdry rt k b r = (if at_boundary rt b r then k b r else None)"

text \<open>\<^verbatim>\<open>(?=P)\<close>, \<^verbatim>\<open>^\<close> and \<^verbatim>\<open>$\<close> (the end, or a line feed that ends the text).\<close>

definition look :: "(nat \<Rightarrow> bool) \<Rightarrow> 'a cont \<Rightarrow> 'a cont" where
  "look P k b r = (case r of [] \<Rightarrow> None | c # cs \<Rightarrow> if P c then k b r else None)"

definition bol :: "'a cont \<Rightarrow> 'a cont" where
  "bol k b r = (if b = [] then k b r else None)"

definition eol :: "'a cont \<Rightarrow> 'a cont" where
  "eol k b r = (if r = [] \<or> r = [10] then k b r else None)"

text \<open>
  One pattern letter under \<^verbatim>\<open>re.IGNORECASE\<close>. The pattern letters of the program are
  upper-case ASCII letters; besides its two ASCII cases, I also matches U+0130 and U+0131,
  K matches U+212A (KELVIN SIGN) and S matches U+017F.
\<close>

definition ieq :: "nat \<Rightarrow> nat \<Rightarrow> bool" where
  "ieq p c = (c = p \<or> c = p + 32 \<or> (p = 73 \<and> (c = 304 \<or> c = 305)) \<or>
              (p = 75 \<and> c = 8490) \<or> (p = 83 \<and> c = 383))"

fun lit_i :: "pystr \<Rightarrow> 'a cont \<Rightarrow> 'a cont" where
  "lit_i [] k b r = k b r"
| "lit_i (p # ps) k b [] = None"
| "lit_i (p # ps) k b (c # cs) = (if ieq p c then lit_i ps k (b @ [c]) cs else None)"

text \<open>\<^verbatim>\<open>t1|t2|...\<close> of case-insensitive literals, in the order written.\<close>

fun alts :: "pystr list \<Rightarrow> 'a cont \<Rightarrow> 'a cont" where
  "alts [] k b r = None"
| "alts (t # ts) k b r =
     (case lit_i t k b r of Some x \<Rightarrow> Some x | None \<Rightarrow> alts ts k b r)"

text \<open>\<^verbatim>\<open>re.search\<close> tries every start from the left, \<^verbatim>\<open>re.match\<close> the first only.\<close>

fun search_from :: "'a cont \<Rightarrow> 'a cont" where
  "search_from m b [] = m b []"
| "search_from m b (c # cs) =
     (case m b (c # cs) of Some x \<Rightarrow> Some x | None \<Rightarrow> search_from m (b @ [c]) cs)"

definition re_search :: "'a cont \<Rightarrow> pystr \<Rightarrow> 'a option" where
  "re_search m text = search_from m [] text"

definition re_match :: "'a cont \<Rightarrow> pystr \<Rightarrow> 'a option" where
  "re_match m text = m [] text"

text \<open>\<^verbatim>\<open>for pattern in patterns: match = re.search(pattern, text); if match: ...\<close>\<close>

fun first_match :: "pystr cont list \<Rightarrow> pystr \<Rightarrow> pystr option" where
  "first_match [] text = None"
| "first_match (p # ps) text =
     (case re_search p text of Some g \<Rightarrow> Some g | None \<Rightarrow> first_match ps text)"

section \<open>FieldExtractors\<close>

subsection \<open>clean\_text\<close>

text \<open>
  \<^verbatim>\<open>re.sub(r'\s+', ' ', text)\<close>: scanning from the left, every maximal run of whitespace is
  replaced by one U+0020.
\<close>

function sub_ws :: "pystr \<Rightarrow> pystr" where
  "sub_ws [] = []"
| "sub_ws (c # cs) =
     (if isspace c then 32 # sub_ws (dropWhile isspace cs) else c # sub_ws cs)"
  by pat_completeness auto
termination
  by (relation "measure length") (auto simp: length_dropWhile_le less_Suc_eq_le)

definition clean_text :: "pystr \<Rightarrow> pystr" where
  "clean_text text = (if text = [] then [] else strip (sub_ws text))"

subsection \<open>extract\_jersey\_number\<close>

definition colon_or_space :: "nat \<Rightarrow> bool" where
  "colon_or_space c = (c = 58 \<or> isspace c)"

text \<open>
  \<^verbatim>\<open>Jersey Number[:\s]+(\d+)\<close>, \<^verbatim>\<open>#(\d{1,2})\b\<close>, \<^verbatim>\<open>No\.?[:\s]*(\d{1,2})\b\<close>,
  \<^verbatim>\<open>\b(\d{1,2})\s+(?=[A-Z])\<close>, \<^verbatim>\<open>^\s*(\d{1,2})\s*$\<close>
\<close>

definition jersey_patterns :: "runtime \<Rightarrow> pystr cont list" where
  "jersey_patterns rt =
     [lit (py ''Jersey Number'') (plus colon_or_space (grp (plus (digit rt)) ret)),
      chr_if (\<lambda>c. c = 35) (grp (rep12 (digit rt)) (\<lambda>g. bdry rt (ret g))),
      lit (py ''No'') (opt (chr_if (\<lambda>c. c = 46)) (star colon_or_space
        (grp (rep12 (digit rt)) (\<lambda>g. bdry rt (ret g))))),
      bdry rt (grp (rep12 (digit rt))
        (\<lambda>g. plus isspace (look (\<lambda>c. 65 \<le> c \<and> c \<le> 90) (ret g)))),
      bol (star isspace (grp (rep12 (digit rt)) (\<lambda>g. star isspace (eol (ret g)))))]"

definition extract_jersey_number :: "runtime \<Rightarrow> pystr \<Rightarrow> pystr" where
  "extract_jersey_number rt text =
     (if text = [] then []
      else case first_match (jersey_patterns rt) text of Some g \<Rightarrow> g | None \<Rightarrow> [])"

subsection \<open>extract\_height\<close>

text \<open>
  The feet-and-inches part \<^verbatim>\<open>\d+['\<prime>]\s*\d+["\<Prime>']{1,2}\<close> (U+2032 is 8242, U+2033 is
  8243) and the metric tail \<^verbatim>\<open>\s*/\s*\d+\.\d+m\<close>.
\<close>

definition imperial :: "runtime \<Rightarrow> 'a cont \<Rightarrow> 'a cont" where
  "imperial rt k =
     plus (digit rt) (chr_if (\<lambda>c. c = 39 \<or> c = 8242) (star isspace (plus (digit rt)
       (rep12 (\<lambda>c. c = 34 \<or> c = 8243 \<or> c = 39) k))))"

definition metric_tail :: "runtime \<Rightarrow> 'a cont \<Rightarrow> 'a cont" where
  "metric_tail rt k =
     star isspace (chr_if (\<lambda>c. c = 47) (star isspace (plus (digit rt)
       (chr_if (\<lambda>c. c = 46) (plus (digit rt) (chr_if (\<lambda>c. c = 109) k))))))"

text \<open>
  The five patterns, each one group: feet and inches with an optional metric tail, feet
  and inches, \<^verbatim>\<open>(\d+-\d+)\<close>, \<^verbatim>\<open>(\d+\.\d+m)\<close>, \<^verbatim>\<open>Height:\s*([^\,\n]+)\<close>.
\<close>

definition height_patterns :: "runtime \<Rightarrow> pystr cont list" where
  "height_patterns rt =
     [grp (\<lambda>k. imperial rt (opt (metric_tail rt) k)) ret,
      grp (imperial rt) ret,
      grp (\<lambda>k. plus (digit rt) (chr_if (\<lambda>c. c = 45) (plus (digit rt) k))) ret,
      grp (\<lambda>k. plus (digit rt) (chr_if (\<lambda>c. c = 46) (plus (digit rt)
        (chr_if (\<lambda>c. c = 109) k)))) ret,
      lit (py ''Height:'') (star isspace (grp (plus (\<lambda>c. c \<noteq> 44 \<and> c \<noteq> 10)) ret))]"

definition extract_height :: "runtime \<Rightarrow> pystr \<Rightarrow> pystr" where
  "extract_height rt text =
     (if text = [] then []
      else case first_match (height_patterns rt) text of Some g \<Rightarrow> strip g | None \<Rightarrow> [])"

subsection \<open>extract\_position\<close>

definition position_tokens :: "pystr list" where
  "position_tokens = map py
     [''GK'', ''G'', ''GOALKEEPER'', ''GOALIE'',
      ''D'', ''DEF'', ''DEFENSE'', ''DEFENDER'', ''B'', ''BACK'',
      ''M'', ''MF'', ''MID'', ''MIDFIELDER'', ''MIDFIELD'',
      ''F'', ''FW'', ''FOR'', ''FORWARD'', ''A'', ''ATT'', ''ATTACK'', ''ATTACKER'', ''O'',
      ''OFFENSE'']"

text \<open>\<^verbatim>\<open>\b(GK|G|...|OFFENSE)\b\<close> with \<^verbatim>\<open>re.IGNORECASE\<close>\<close>

definition position_re :: "runtime \<Rightarrow> pystr cont" where
  "position_re rt = bdry rt (grp (alts position_tokens) (\<lambda>g. bdry rt (ret g)))"

definition extract_position :: "runtime \<Rightarrow> pystr \<Rightarrow> pystr" where
  "extract_position rt text0 =
     (if text0 = [] then []
      else let text = strip text0 in
        case re_search (position_re rt) text of
          Some g \<Rightarrow>
            (let pos = str_upper rt g in
             if pos \<in> set (map py [''GK'', ''G'', ''GOALKEEPER'', ''GOALIE'']) then py ''GK''
             else if pos \<in> set (map py
                 [''DEF'', ''D'', ''DEFENSE'', ''DEFENDER'', ''B'', ''BACK'']) then py ''D''
             else if pos \<in> set (map py [''MID'', ''MF'', ''MIDFIELDER'', ''MIDFIELD''])
               then py ''M''
             else if pos \<in> set (map py [''FOR'', ''FW'', ''F'', ''FORWARD'', ''A'', ''ATT'',
                 ''ATTACK'', ''ATTACKER'', ''O'', ''OFFENSE'']) then py ''F''
             else pos)
        | None \<Rightarrow>
            (let text_upper = str_upper rt text in
             if contains text_upper (py ''GOALKEEPER'') \<or> contains text_upper (py ''GOALIE'') \<or>
                contains text_upper (py ''KEEPER'') then py ''GK''
             else if contains text_upper (py ''DEFENSE'') \<or>
                contains text_upper (py ''DEFENDER'') \<or> contains text_upper (py ''BACK'')
               then py ''D''
             else if contains text_upper (py ''MIDFIELDER'') \<or>
                contains text_upper (py ''MIDFIELD'') then py ''M''
             else if contains text_upper (py ''FORWARD'') \<or>
                contains text_upper (py ''ATTACK'') \<or> contains text_upper (py ''OFFENSE'')
               then py ''F''
             else []))"

subsection \<open>normalize\_academic\_year\<close>

definition year_map :: "(pystr \<times> pystr) list" where
  "year_map = map (\<lambda>(k, v). (py k, py v))
     [(''Fr'', ''Freshman''), (''Fr.'', ''Freshman''), (''FR'', ''Freshman''),
      (''So'', ''Sophomore''), (''So.'', ''Sophomore''), (''SO'', ''Sophomore''),
      (''Jr'', ''Junior''), (''Jr.'', ''Junior''), (''JR'', ''Junior''),
      (''Sr'', ''Senior''), (''Sr.'', ''Senior''), (''SR'', ''Senior''),
      (''Gr'', ''Graduate''), (''Gr.'', ''Graduate''), (''GR'', ''Graduate''),
      (''R-Fr'', ''Redshirt Freshman''), (''R-Fr.'', ''Redshirt Freshman''),
      (''R-So'', ''Redshirt Sophomore''), (''R-So.'', ''Redshirt Sophomore''),
      (''R-Jr'', ''Redshirt Junior''), (''R-Jr.'', ''Redshirt Junior''),
      (''R-Sr'', ''Redshirt Senior''), (''R-Sr.'', ''Redshirt Senior''),
      (''1st'', ''Freshman''), (''First'', ''Freshman''),
      (''2nd'', ''Sophomore''), (''Second'', ''Sophomore''),
      (''3rd'', ''Junior''), (''Third'', ''Junior''),
      (''4th'', ''Senior''), (''Fourth'', ''Senior''),
      (''5th'', ''Graduate''), (''Fifth'', ''Graduate'')]"

definition normalize_academic_year :: "pystr \<Rightarrow> pystr" where
  "normalize_academic_year year_text =
     (if year_text = [] then []
      else case map_of year_map year_text of Some v \<Rightarrow> v | None \<Rightarrow> year_text)"

subsection \<open>extract\_hometown\_parts\<close>

text \<open>\<^verbatim>\<open>([^/]+?)\s*/\s*(.+)\<close>; the dot matches every character but the line feed.\<close>

definition hometown_re :: "(pystr \<times> pystr) cont" where
  "hometown_re =
     grp (lazy_plus (\<lambda>c. c \<noteq> 47)) (\<lambda>g1.
       star isspace (chr_if (\<lambda>c. c = 47) (star isspace (
         grp (plus (\<lambda>c. c \<noteq> 10)) (\<lambda>g2 b r. Some (g1, g2))))))"

definition extract_hometown_parts :: "pystr \<Rightarrow> pystr \<times> pystr" where
  "extract_hometown_parts hometown_text =
     (if hometown_text = [] then ([], [])
      else case re_match hometown_re hometown_text of
        Some (g1, g2) \<Rightarrow> (strip g1, strip g2)
      | None \<Rightarrow> (strip hometown_text, []))"

section \<open>Parsed pages\<close>

text \<open>
  What the program reads of a document parsed by BeautifulSoup: a tree of text nodes and
  of tags, a tag with its name, the tokens of its \<^verbatim>\<open>class\<close> attribute, its \<^verbatim>\<open>href\<close>
  attribute when it has one, and its children. The document itself is a tag.
\<close>

datatype node = Text pystr | Tag pystr "pystr list" "pystr option" "node list"

text \<open>The tags and texts below a node, in document order.\<close>

fun descendants :: "node \<Rightarrow> node list" where
  "descendants (Text t) = []"
| "descendants (Tag n cl h ks) = concat (map (\<lambda>k. k # descendants k) ks)"

text \<open>\<^verbatim>\<open>node.get_text()\<close>\<close>

fun get_text :: "node \<Rightarrow> pystr" where
  "get_text (Text t) = t"
| "get_text (Tag n cl h ks) = concat (map get_text ks)"

fun tag_named :: "pystr list \<Rightarrow> node \<Rightarrow> bool" where
  "tag_named names (Text t) = False"
| "tag_named names (Tag n cl h ks) = (n \<in> set names)"

fun has_class :: "pystr option \<Rightarrow> node \<Rightarrow> bool" where
  "has_class None k = True"
| "has_class (Some c) (Text t) = False"
| "has_class (Some c) (Tag n cl h ks) = (c \<in> set cl)"

fun href :: "node \<Rightarrow> pystr option" where
  "href (Text t) = None"
| "href (Tag n cl h ks) = h"

text \<open>
  \<^verbatim>\<open>node.find_all(name, class_=c)\<close>, where \<open>name\<close> is one tag name or a list of them, and
  \<^verbatim>\<open>node.find(name, class_=c)\<close>, its first result.
\<close>

definition find_all :: "pystr list \<Rightarrow> pystr option \<Rightarrow> node \<Rightarrow> node list" where
  "find_all names c x = filter (\<lambda>k. tag_named names k \<and> has_class c k) (descendants x)"

definition find_first :: "pystr list \<Rightarrow> pystr option \<Rightarrow> node \<Rightarrow> node option" where
  "find_first names c x = (case find_all names c x of [] \<Rightarrow> None | k # ks \<Rightarrow> Some k)"

text \<open>\<^verbatim>\<open>node.find('a', href=True)\<close>\<close>

definition find_link :: "node \<Rightarrow> node option" where
  "find_link x =
     (case filter (\<lambda>k. tag_named [py ''a''] k \<and> href k \<noteq> None) (descendants x) of
        [] \<Rightarrow> None | k # ks \<Rightarrow> Some k)"

text \<open>\<^verbatim>\<open>next((i for i, h in enumerate(headers) if P(h)), None)\<close>\<close>

fun first_index :: "('a \<Rightarrow> bool) \<Rightarrow> 'a list \<Rightarrow> nat option" where
  "first_index P [] = None"
| "first_index P (x # xs) =
     (if P x then Some 0 else case first_index P xs of None \<Rightarrow> None | Some i \<Rightarrow> Some (Suc i))"

section \<open>Records and the transport\<close>

text \<open>The dataclass \<^verbatim>\<open>Player\<close>.\<close>

record player =
  team_id :: int
  team :: pystr
  season :: pystr
  division :: pystr
  player_id :: "pystr option"
  name :: pystr
  jersey :: pystr
  position :: pystr
  height :: pystr
  year :: pystr
  major :: pystr
  hometown :: pystr
  high_school :: pystr
  previous_school :: pystr
  url :: pystr

text \<open>
  \<^verbatim>\<open>session.get(url, ...)\<close> either raises or returns a response, of which the program
  reads the status code and the content, here the document BeautifulSoup parses from it.
  The session is an external service with a state of its own: a request is a function of
  that state and of the URL (the headers are fixed by the program), to the outcome and
  the next state.
\<close>

datatype exc = RequestException pystr | OtherException pystr

fun message :: "exc \<Rightarrow> pystr" where
  "message (RequestException m) = m"
| "message (OtherException m) = m"

record response =
  status_code :: int
  content :: node

type_synonym 'st session = "'st \<Rightarrow> pystr \<Rightarrow> (exc + response) \<times> 'st"

section \<open>StandardScraper\<close>

subsection \<open>\_scrape\_player\_profile\<close>

text \<open>\<^verbatim>\<open>'word' in label\<close>\<close>

definition has :: "pystr \<Rightarrow> string \<Rightarrow> bool" where
  "has label w = contains label (py w)"

text \<open>
  The body of \<^verbatim>\<open>if not player.hometown:\<close>: the value is split, the first part is the
  hometown, the second the high school when there is one and none is recorded yet.
\<close>

definition set_hometown :: "pystr \<Rightarrow> player \<Rightarrow> player" where
  "set_hometown v p =
     (let (ht, hs) = extract_hometown_parts v;
          p1 = p\<lparr>hometown := ht\<rparr>
      in if hs \<noteq> [] \<and> high_school p1 = [] then p1\<lparr>high_school := hs\<rparr> else p1)"

text \<open>
  One labelled value of the bio block; the program has the same chain again for the
  pairs of the definition list.
\<close>

definition bio_field :: "runtime \<Rightarrow> pystr \<Rightarrow> pystr \<Rightarrow> player \<Rightarrow> player" where
  "bio_field rt label v p =
     (if v = [] \<or> v = py ''-'' then p
      else if has label ''position'' \<or> has label ''pos'' then
        (if position p = [] then p\<lparr>position := extract_position rt v\<rparr> else p)
      else if has label ''height'' \<or> has label ''ht'' then
        (if height p = [] then
           p\<lparr>height := (if extract_height rt v \<noteq> [] then extract_height rt v else v)\<rparr>
         else p)
      else if has label ''class'' \<or> has label ''year'' \<or> has label ''eligibility'' then
        (if year p = [] then p\<lparr>year := normalize_academic_year v\<rparr> else p)
      else if has label ''major'' \<or> has label ''academic'' then
        (if major p = [] then p\<lparr>major := v\<rparr> else p)
      else if has label ''hometown'' then
        (if hometown p = [] then set_hometown v p else p)
      else if has label ''high school'' \<or> has label ''hs'' then
        (if high_school p = [] then p\<lparr>high_school := v\<rparr> else p)
      else if has label ''previous school'' \<or> has label ''last school'' \<or>
          has label ''transfer'' then
        (if previous_school p = [] then p\<lparr>previous_school := v\<rparr> else p)
      else p)"

text \<open>One row of a detail table: the chain with fewer label words.\<close>

definition table_field :: "runtime \<Rightarrow> pystr \<Rightarrow> pystr \<Rightarrow> player \<Rightarrow> player" where
  "table_field rt label v p =
     (if v = [] \<or> v = py ''-'' then p
      else if has label ''position'' then
        (if position p = [] then p\<lparr>position := extract_position rt v\<rparr> else p)
      else if has label ''height'' then
        (if height p = [] then
           p\<lparr>height := (if extract_height rt v \<noteq> [] then extract_height rt v else v)\<rparr>
         else p)
      else if has label ''class'' \<or> has label ''year'' then
        (if year p = [] then p\<lparr>year := normalize_academic_year v\<rparr> else p)
      else if has label ''major'' then
        (if major p = [] then p\<lparr>major := v\<rparr> else p)
      else if has label ''hometown'' then
        (if hometown p = [] then set_hometown v p else p)
      else if has label ''high school'' then
        (if high_school p = [] then p\<lparr>high_school := v\<rparr> else p)
      else if has label ''previous school'' then
        (if previous_school p = [] then p\<lparr>previous_school := v\<rparr> else p)
      else p)"

text \<open>\<^verbatim>\<open>FieldExtractors.clean_text(elem.get_text()).lower()\<close> and the value beside it.\<close>

definition label_of :: "runtime \<Rightarrow> node \<Rightarrow> pystr" where
  "label_of rt e = str_lower rt (clean_text (get_text e))"

definition value_of :: "node \<Rightarrow> pystr" where
  "value_of e = clean_text (get_text e)"

definition bio_item :: "runtime \<Rightarrow> node \<Rightarrow> player \<Rightarrow> player" where
  "bio_item rt item p =
     (case find_first [py ''span''] (Some (py ''sidearm-roster-player-bio-label'')) item of
        None \<Rightarrow> p
      | Some l \<Rightarrow>
          (case find_first [py ''span''] (Some (py ''sidearm-roster-player-bio-value'')) item of
             None \<Rightarrow> p
           | Some v \<Rightarrow> bio_field rt (label_of rt l) (value_of v) p))"

definition bio_pass :: "runtime \<Rightarrow> node \<Rightarrow> player \<Rightarrow> player" where
  "bio_pass rt html p =
     (case find_first [py ''div''] (Some (py ''sidearm-roster-player-bio'')) html of
        None \<Rightarrow> p
      | Some bio_section \<Rightarrow>
          fold (bio_item rt)
            (find_all [py ''div''] (Some (py ''sidearm-roster-player-bio-item'')) bio_section) p)"

definition dl_pass :: "runtime \<Rightarrow> node \<Rightarrow> player \<Rightarrow> player" where
  "dl_pass rt html p =
     (case find_first [py ''dl''] (Some (py ''sidearm-roster-player-bio'')) html of
        None \<Rightarrow> p
      | Some dl_section \<Rightarrow>
          fold (\<lambda>(dt, dd). bio_field rt (label_of rt dt) (value_of dd))
            (zip (find_all [py ''dt''] None dl_section) (find_all [py ''dd''] None dl_section))
            p)"

definition detail_row :: "runtime \<Rightarrow> node \<Rightarrow> player \<Rightarrow> player" where
  "detail_row rt row p =
     (let cells = find_all [py ''th'', py ''td''] None row
      in if 2 \<le> length cells
         then table_field rt (label_of rt (cells ! 0)) (value_of (cells ! 1)) p
         else p)"

definition detail_tables_pass :: "runtime \<Rightarrow> node \<Rightarrow> player \<Rightarrow> player" where
  "detail_tables_pass rt html p =
     fold (\<lambda>table. fold (detail_row rt) (find_all [py ''tr''] None table))
       (find_all [py ''table''] (Some (py ''sidearm-table'')) html) p"

text \<open>The three passes over a fetched profile page, in the order of the program.\<close>

definition profile_page :: "runtime \<Rightarrow> node \<Rightarrow> player \<Rightarrow> player" where
  "profile_page rt html p = detail_tables_pass rt html (dl_pass rt html (bio_pass rt html p))"

text \<open>
  \<^verbatim>\<open>StandardScraper._scrape_player_profile\<close>: no request for a player without URL; a
  request that raises, or whose status is not 200, leaves the player as it is.
\<close>

definition scraper_scrape_player_profile ::
    "runtime \<Rightarrow> 'st session \<Rightarrow> 'st \<Rightarrow> player \<Rightarrow> player \<times> 'st" where
  "scraper_scrape_player_profile rt get st p =
     (if url p = [] then (p, st)
      else case get st (url p) of
        (Inl e, st') \<Rightarrow> (p, st')
      | (Inr resp, st') \<Rightarrow>
          if status_code resp \<noteq> 200 then (p, st')
          else (profile_page rt (content resp) p, st'))"

subsection \<open>\_extract\_players and \_extract\_players\_from\_table\<close>

text \<open>The domain of the site, from \<^verbatim>\<open>tldextract.extract(base_url)\<close>.\<close>

definition site_domain :: "runtime \<Rightarrow> pystr \<Rightarrow> pystr" where
  "site_domain rt base_url =
     (let (subdomain, dom, suffix) = tldextract rt base_url;
          d = dom @ py ''.'' @ suffix
      in if subdomain \<noteq> [] then subdomain @ py ''.'' @ d else d)"

text \<open>The absolute URL of a link.\<close>

definition absolute_url :: "pystr \<Rightarrow> pystr \<Rightarrow> pystr" where
  "absolute_url d rel_url =
     (if startswith rel_url (py ''http'') then rel_url
      else if startswith rel_url (py ''/'') then py ''https://'' @ d @ rel_url
      else py ''https://'' @ d @ py ''/'' @ rel_url)"

text \<open>The name and the profile URL found in an element: of its link when it has one.\<close>

definition name_and_url :: "pystr \<Rightarrow> node \<Rightarrow> pystr \<times> pystr" where
  "name_and_url d e =
     (case find_link e of
        Some name_link \<Rightarrow>
          (clean_text (get_text name_link),
           absolute_url d (case href name_link of Some h \<Rightarrow> h | None \<Rightarrow> []))
      | None \<Rightarrow> (clean_text (get_text e), []))"

text \<open>
  The local variables \<^verbatim>\<open>position\<close>, \<^verbatim>\<open>year\<close>, \<^verbatim>\<open>hometown\<close>, \<^verbatim>\<open>high_school\<close>,
  \<^verbatim>\<open>height\<close> of a roster item, which the loop over its custom fields assigns.
\<close>

record meta =
  m_position :: pystr
  m_year :: pystr
  m_hometown :: pystr
  m_high_school :: pystr
  m_height :: pystr

definition meta_field :: "runtime \<Rightarrow> node \<Rightarrow> meta \<Rightarrow> meta" where
  "meta_field rt m acc =
     (case find_first [py ''span''] (Some (py ''sidearm-roster-player-custom-field-label'')) m of
        None \<Rightarrow> acc
      | Some l \<Rightarrow>
          (case find_first [py ''span'']
                  (Some (py ''sidearm-roster-player-custom-field-value'')) m of
             None \<Rightarrow> acc
           | Some v \<Rightarrow>
               (let label = label_of rt l; val = value_of v in
                if has label ''position'' \<or> has label ''pos'' then
                  acc\<lparr>m_position := extract_position rt val\<rparr>
                else if has label ''class'' \<or> has label ''year'' then
                  acc\<lparr>m_year := normalize_academic_year val\<rparr>
                else if has label ''hometown'' then
                  (let (ht, hs) = extract_hometown_parts val;
                       acc1 = acc\<lparr>m_hometown := ht\<rparr>
                   in if hs \<noteq> [] then acc1\<lparr>m_high_school := hs\<rparr> else acc1)
                else if has label ''high school'' then acc\<lparr>m_high_school := val\<rparr>
                else if has label ''height'' then acc\<lparr>m_height := extract_height rt val\<rparr>
                else acc)))"

text \<open>
  One roster item: jersey, name and URL, the custom fields, the new record, and its
  profile page when profiles are scraped and the record has a URL.
\<close>

definition extract_item ::
    "runtime \<Rightarrow> 'st session \<Rightarrow> bool \<Rightarrow> int \<Rightarrow> pystr \<Rightarrow> pystr \<Rightarrow> pystr \<Rightarrow> pystr \<Rightarrow>
     node \<Rightarrow> 'st \<Rightarrow> player \<times> 'st" where
  "extract_item rt get scrape_profiles tid team_name seas divn d item st =
     (let jersey_text =
            (case find_first [py ''span''] (Some (py ''sidearm-roster-player-jersey-number''))
                    item of
               Some j \<Rightarrow> clean_text (get_text j) | None \<Rightarrow> []);
          name_elem =
            (case find_first [py ''h3''] None item of
               Some e \<Rightarrow> Some e | None \<Rightarrow> find_first [py ''h2''] None item);
          (nm, profile_url) =
            (case name_elem of Some e \<Rightarrow> name_and_url d e | None \<Rightarrow> ([], []));
          m = fold (meta_field rt)
                (find_all [py ''div''] (Some (py ''sidearm-roster-player-custom-fields'')) item)
                \<lparr>m_position = [], m_year = [], m_hometown = [], m_high_school = [],
                 m_height = []\<rparr>;
          p = \<lparr>team_id = tid, team = team_name, season = seas, division = divn,
               player_id = None, name = nm, jersey = jersey_text, position = m_position m,
               height = m_height m, year = m_year m, major = [], hometown = m_hometown m,
               high_school = m_high_school m, previous_school = [], url = profile_url\<rparr>
      in if scrape_profiles \<and> profile_url \<noteq> []
         then scraper_scrape_player_profile rt get st p else (p, st))"

text \<open>A loop that appends one record per element, the session state passed along.\<close>

fun collect :: "('a \<Rightarrow> 'st \<Rightarrow> player \<times> 'st) \<Rightarrow> 'a list \<Rightarrow> 'st \<Rightarrow> player list \<times> 'st" where
  "collect f [] st = ([], st)"
| "collect f (x # xs) st =
     (let (p, st1) = f x st; (ps, st2) = collect f xs st1 in (p # ps, st2))"

text \<open>The column of a header word, and the cell of a row in a column.\<close>

record columns =
  name_idx :: "nat option"
  jersey_idx :: "nat option"
  pos_idx :: "nat option"
  year_idx :: "nat option"
  height_idx :: "nat option"
  hometown_idx :: "nat option"
  hs_idx :: "nat option"

definition map_columns :: "pystr list \<Rightarrow> columns" where
  "map_columns headers =
     \<lparr>name_idx = first_index (\<lambda>h. has h ''name'') headers,
      jersey_idx = first_index (\<lambda>h. has h ''#'' \<or> has h ''number'' \<or> has h ''jersey'') headers,
      pos_idx = first_index (\<lambda>h. has h ''pos'') headers,
      year_idx = first_index (\<lambda>h. has h ''year'' \<or> has h ''class'') headers,
      height_idx = first_index (\<lambda>h. has h ''height'' \<or> has h ''ht'') headers,
      hometown_idx = first_index (\<lambda>h. has h ''hometown'') headers,
      hs_idx = first_index (\<lambda>h. has h ''high school'' \<or> has h ''hs'') headers\<rparr>"

text \<open>\<^verbatim>\<open>idx is not None and idx < len(cols)\<close>, and then \<^verbatim>\<open>cols[idx]\<close>.\<close>

definition cell :: "nat option \<Rightarrow> node list \<Rightarrow> node option" where
  "cell idx cols =
     (case idx of None \<Rightarrow> None | Some i \<Rightarrow> if i < length cols then Some (cols ! i) else None)"

definition cell_text :: "nat option \<Rightarrow> node list \<Rightarrow> pystr option" where
  "cell_text idx cols = map_option (\<lambda>c. clean_text (get_text c)) (cell idx cols)"

text \<open>The record of one body row.\<close>

definition extract_row ::
    "runtime \<Rightarrow> 'st session \<Rightarrow> bool \<Rightarrow> int \<Rightarrow> pystr \<Rightarrow> pystr \<Rightarrow> pystr \<Rightarrow> pystr \<Rightarrow>
     columns \<Rightarrow> node \<Rightarrow> 'st \<Rightarrow> player \<times> 'st" where
  "extract_row rt get scrape_profiles tid team_name seas divn d ix row st =
     (let cols = find_all [py ''td'', py ''th''] None row;
          (nm, profile_url) =
            (case cell (name_idx ix) cols of
               Some name_cell \<Rightarrow> name_and_url d name_cell | None \<Rightarrow> ([], []));
          jersey_text =
            (case cell_text (jersey_idx ix) cols of
               Some j \<Rightarrow> if extract_jersey_number rt j \<noteq> [] then extract_jersey_number rt j else j
             | None \<Rightarrow> []);
          pos =
            (case cell_text (pos_idx ix) cols of
               Some pos_text \<Rightarrow> extract_position rt pos_text | None \<Rightarrow> []);
          yr =
            (case cell_text (year_idx ix) cols of
               Some year_text \<Rightarrow> normalize_academic_year year_text | None \<Rightarrow> []);
          ht =
            (case cell_text (height_idx ix) cols of
               Some height_text \<Rightarrow>
                 if extract_height rt height_text \<noteq> [] then extract_height rt height_text
                 else height_text
             | None \<Rightarrow> []);
          (town, hs1) =
            (case cell_text (hometown_idx ix) cols of
               Some hometown_text \<Rightarrow> extract_hometown_parts hometown_text | None \<Rightarrow> ([], []));
          hs =
            (case cell_text (hs_idx ix) cols of Some hs_text \<Rightarrow> hs_text | None \<Rightarrow> hs1);
          p = \<lparr>team_id = tid, team = team_name, season = seas, division = divn,
               player_id = None, name = nm, jersey = jersey_text, position = pos,
               height = ht, year = yr, major = [], hometown = town,
               high_school = hs, previous_school = [], url = profile_url\<rparr>
      in if scrape_profiles \<and> profile_url \<noteq> []
         then scraper_scrape_player_profile rt get st p else (p, st))"

text \<open>
  The loop over the body rows: a row of fewer than two cells is passed over, every other
  row gives one record.
\<close>

fun table_rows :: "(node \<Rightarrow> 'st \<Rightarrow> player \<times> 'st) \<Rightarrow> node list \<Rightarrow> 'st \<Rightarrow> player list \<times> 'st" where
  "table_rows f [] st = ([], st)"
| "table_rows f (row # rows) st =
     (if length (find_all [py ''td'', py ''th''] None row) < 2 then table_rows f rows st
      else let (p, st1) = f row st; (ps, st2) = table_rows f rows st1 in (p # ps, st2))"

text \<open>
  \<^verbatim>\<open>StandardScraper._extract_players_from_table\<close>: the table of class
  \<^verbatim>\<open>sidearm-table\<close>, or else the first table; its header is its \<^verbatim>\<open>thead\<close>, or else its
  first row; the rows are those of its \<^verbatim>\<open>tbody\<close>, or else of the table, but the first.
\<close>

definition extract_players_from_table ::
    "runtime \<Rightarrow> 'st session \<Rightarrow> bool \<Rightarrow> 'st \<Rightarrow> node \<Rightarrow> int \<Rightarrow> pystr \<Rightarrow> pystr \<Rightarrow> pystr \<Rightarrow>
     pystr \<Rightarrow> player list \<times> 'st" where
  "extract_players_from_table rt get scrape_profiles st html tid team_name seas divn base_url =
     (case (case find_first [py ''table''] (Some (py ''sidearm-table'')) html of
              Some t \<Rightarrow> Some t | None \<Rightarrow> find_first [py ''table''] None html) of
        None \<Rightarrow> ([], st)
      | Some table \<Rightarrow>
          (case (case find_first [py ''thead''] None table of
                   Some h \<Rightarrow> Some h | None \<Rightarrow> find_first [py ''tr''] None table) of
             None \<Rightarrow> ([], st)
           | Some header_row \<Rightarrow>
               (let headers = map (label_of rt) (find_all [py ''th'', py ''td''] None header_row);
                    ix = map_columns headers;
                    tbody = (case find_first [py ''tbody''] None table of
                               Some b \<Rightarrow> b | None \<Rightarrow> table);
                    rows = find_all [py ''tr''] None tbody
                in table_rows
                     (extract_row rt get scrape_profiles tid team_name seas divn
                        (site_domain rt base_url) ix)
                     (tl rows) st)))"

text \<open>
  \<^verbatim>\<open>StandardScraper._extract_players\<close>: the roster items of the page, or the table
  when there is none.
\<close>

definition extract_players ::
    "runtime \<Rightarrow> 'st session \<Rightarrow> bool \<Rightarrow> 'st \<Rightarrow> node \<Rightarrow> int \<Rightarrow> pystr \<Rightarrow> pystr \<Rightarrow> pystr \<Rightarrow>
     pystr \<Rightarrow> player list \<times> 'st" where
  "extract_players rt get scrape_profiles st html tid team_name seas divn base_url =
     (let roster_items = find_all [py ''li''] (Some (py ''sidearm-roster-player'')) html
      in if roster_items = []
         then extract_players_from_table rt get scrape_profiles st html tid team_name seas divn
                base_url
         else collect
                (extract_item rt get scrape_profiles tid team_name seas divn
                   (site_domain rt base_url))
                roster_items st)"

section \<open>SeasonVerifier, URLBuilder, TeamConfig\<close>

text \<open>\<^verbatim>\<open>str(n)\<close> of an integer.\<close>

function str_nat :: "nat \<Rightarrow> pystr" where
  "str_nat n = (if n < 10 then [48 + n] else str_nat (n div 10) @ [48 + n mod 10])"
  by pat_completeness auto
termination
  by (relation "measure id") auto

definition str_int :: "int \<Rightarrow> pystr" where
  "str_int i = (if i < 0 then 45 # str_nat (nat (- i)) else str_nat (nat i))"

text \<open>
  \<^verbatim>\<open>int(s)\<close>, which raises \<^verbatim>\<open>ValueError\<close> where this is \<open>None\<close>. The interpreter first
  turns every decimal digit into its ASCII digit and every other whitespace into U+0020,
  and then reads: ASCII whitespace, a sign, digits with single underscores between
  them, ASCII whitespace, and nothing more. (The bound that recent interpreters put on
  the number of digits is left out.)
\<close>

definition to_ascii :: "runtime \<Rightarrow> nat \<Rightarrow> nat" where
  "to_ascii rt c =
     (if c < 127 then c else if isspace c then 32
      else case decimal rt c of Some d \<Rightarrow> 48 + d | None \<Rightarrow> 63)"

definition ascii_space :: "nat \<Rightarrow> bool" where
  "ascii_space c = (c = 32 \<or> (9 \<le> c \<and> c \<le> 13))"

definition ascii_digit :: "nat \<Rightarrow> bool" where
  "ascii_digit c = (48 \<le> c \<and> c \<le> 57)"

fun scan_digits :: "nat \<Rightarrow> bool \<Rightarrow> pystr \<Rightarrow> (nat \<times> pystr) option" where
  "scan_digits acc after_underscore [] = (if after_underscore then None else Some (acc, []))"
| "scan_digits acc after_underscore (c # cs) =
     (if ascii_digit c then scan_digits (10 * acc + (c - 48)) False cs
      else if c = 95 then (if after_underscore then None else scan_digits acc True cs)
      else if after_underscore then None else Some (acc, c # cs))"

definition read_nat :: "pystr \<Rightarrow> nat option" where
  "read_nat s =
     (case s of
        [] \<Rightarrow> None
      | c # cs \<Rightarrow>
          if ascii_digit c then
            (case scan_digits 0 False s of
               None \<Rightarrow> None
             | Some (n, r) \<Rightarrow> if dropWhile ascii_space r = [] then Some n else None)
          else None)"

definition py_int :: "runtime \<Rightarrow> pystr \<Rightarrow> int option" where
  "py_int rt s =
     (case dropWhile ascii_space (map (to_ascii rt) s) of
        [] \<Rightarrow> None
      | c # cs \<Rightarrow>
          if c = 45 then map_option (\<lambda>n. - int n) (read_nat cs)
          else if c = 43 then map_option int (read_nat cs)
          else map_option int (read_nat (c # cs)))"

text \<open>\<^verbatim>\<open>s[-2:]\<close>\<close>

definition last2 :: "pystr \<Rightarrow> pystr" where
  "last2 s = drop (length s - 2) s"

text \<open>\<^verbatim>\<open>SeasonVerifier.verify_season_on_page\<close>\<close>

definition verify_season_on_page :: "runtime \<Rightarrow> node \<Rightarrow> pystr \<Rightarrow> bool" where
  "verify_season_on_page rt html seas =
     (let page_text = get_text html in
      if contains page_text seas then True
      else case py_int rt seas of
        Some y \<Rightarrow>
          (let prev_year = str_int (y - 1);
               next_year = last2 (str_int (y + 1));
               season_range = prev_year @ py ''-'' @ next_year
           in if contains page_text season_range then True else False)
      | None \<Rightarrow> False)"

text \<open>\<^verbatim>\<open>URLBuilder.build_roster_url\<close>\<close>

definition build_roster_url :: "pystr \<Rightarrow> pystr \<Rightarrow> pystr \<Rightarrow> pystr" where
  "build_roster_url base_url0 seas url_format =
     (let base_url = rstrip_slash base_url0 in
      if url_format = py ''default'' then base_url @ py ''/roster/'' @ seas
      else if url_format = py ''fhockey'' then base_url @ py ''/roster/'' @ seas
      else base_url @ py ''/roster/'' @ seas)"

text \<open>\<^verbatim>\<open>TeamConfig.TEAM_CONFIGS\<close>, each team with its \<^verbatim>\<open>url_format\<close>, and \<^verbatim>\<open>get_url_format\<close>.\<close>

definition TEAM_CONFIGS :: "(int \<times> pystr) list" where
  "TEAM_CONFIGS = [(312, py ''fhockey''), (519, py ''fhockey'')]"

definition get_url_format :: "int \<Rightarrow> pystr \<Rightarrow> pystr" where
  "get_url_format tid team_url =
     (case map_of TEAM_CONFIGS tid of
        Some f \<Rightarrow> f
      | None \<Rightarrow>
          if team_url \<noteq> [] then
            (if contains team_url (py ''/sports/fhockey'') then py ''fhockey''
             else if contains team_url (py ''/sports/field-hockey'') then py ''default''
             else py ''default'')
          else py ''default'')"

subsection \<open>scrape\_team\<close>

text \<open>
  The requests for the roster page: the URL with the season; after a 404 the URL
  without it; after anything but a 200 there, the \<^verbatim>\<open>.aspx\<close> URL. An exception of a
  request ends them.
\<close>

definition fetch_roster ::
    "'st session \<Rightarrow> 'st \<Rightarrow> pystr \<Rightarrow> pystr \<Rightarrow> (exc + response) \<times> 'st" where
  "fetch_roster get st base_url roster_url =
     (case get st roster_url of
        (Inl e, st1) \<Rightarrow> (Inl e, st1)
      | (Inr r1, st1) \<Rightarrow>
          if status_code r1 = 404 then
            (case get st1 (rstrip_slash base_url @ py ''/roster'') of
               (Inl e, st2) \<Rightarrow> (Inl e, st2)
             | (Inr r2, st2) \<Rightarrow>
                 if status_code r2 = 200 then (Inr r2, st2)
                 else get st2 (rstrip_slash base_url @ py ''/roster.aspx''))
          else (Inr r1, st1))"

text \<open>The lines \<^verbatim>\<open>scrape_team\<close> itself writes to the log after its requests.\<close>

datatype log_line =
    Warning_failed_to_retrieve pystr int
  | Warning_season_mismatch pystr
  | Info_found pystr nat
  | Error_scraping pystr exc

text \<open>
  \<^verbatim>\<open>StandardScraper.scrape_team\<close>: the records, the log lines and the state of the
  session. The visit of the site's front page comes first, whatever it answers; an
  exception of a later request is caught and gives no record.
\<close>

definition scrape_team ::
    "runtime \<Rightarrow> 'st session \<Rightarrow> bool \<Rightarrow> 'st \<Rightarrow> int \<Rightarrow> pystr \<Rightarrow> pystr \<Rightarrow> pystr \<Rightarrow> pystr \<Rightarrow>
     player list \<times> log_line list \<times> 'st" where
  "scrape_team rt get scrape_profiles st tid team_name base_url seas divn =
     (let url_format = get_url_format tid base_url;
          roster_url = build_roster_url base_url seas url_format;
          domain_base = (if contains base_url (py ''/sports'')
                         then before_first (py ''/sports'') base_url else base_url);
          st0 = snd (get st domain_base)
      in case fetch_roster get st0 base_url roster_url of
           (Inl e, st1) \<Rightarrow> ([], [Error_scraping team_name e], st1)
         | (Inr resp, st1) \<Rightarrow>
             if status_code resp \<noteq> 200
             then ([], [Warning_failed_to_retrieve team_name (status_code resp)], st1)
             else
               (let html = content resp;
                    warn = (if \<not> verify_season_on_page rt html seas
                            then [Warning_season_mismatch team_name] else []);
                    (players, st2) =
                      extract_players rt get scrape_profiles st1 html tid team_name seas divn
                        base_url
                in (players, warn @ [Info_found team_name (length players)], st2)))"

section \<open>RosterManager\<close>

text \<open>
  A team of the list (the keys \<^verbatim>\<open>team\<close>, \<^verbatim>\<open>ncaa_id\<close>, \<^verbatim>\<open>url\<close>), and the three lists of
  the manager: the teams without record, the failed teams with the message of the
  error, the successful teams with their number of records.
\<close>

record team_row =
  t_team :: pystr
  t_ncaa_id :: int
  t_url :: pystr

record manager =
  zero_player_teams :: "team_row list"
  failed_teams :: "(team_row \<times> pystr) list"
  successful_teams :: "(pystr \<times> int \<times> nat) list"

text \<open>
  The body of the loop of \<^verbatim>\<open>scrape_teams\<close> after the call of the scraper, which either
  raised (\<open>Inl\<close>) or returned records: the \<^verbatim>\<open>except\<close> branch, the branch of no record,
  the branch of some records.
\<close>

definition record_outcome ::
    "team_row \<Rightarrow> exc + player list \<Rightarrow> player list \<times> manager \<Rightarrow> player list \<times> manager" where
  "record_outcome t outcome acc =
     (case acc of (all_players, m) \<Rightarrow>
        (case outcome of
           Inl e \<Rightarrow> (all_players, m\<lparr>failed_teams := failed_teams m @ [(t, message e)]\<rparr>)
         | Inr players \<Rightarrow>
             if length players = 0
             then (all_players, m\<lparr>zero_player_teams := zero_player_teams m @ [t]\<rparr>)
             else (all_players @ players,
                   m\<lparr>successful_teams :=
                       successful_teams m @ [(t_team t, t_ncaa_id t, length players)]\<rparr>)))"

text \<open>The loop over the teams, for any scraper; the state of the session is passed along.\<close>

fun scrape_loop ::
    "(team_row \<Rightarrow> 'st \<Rightarrow> (exc + player list) \<times> 'st) \<Rightarrow> team_row list \<Rightarrow>
     player list \<times> manager \<Rightarrow> 'st \<Rightarrow> (player list \<times> manager) \<times> 'st" where
  "scrape_loop scraper [] acc st = (acc, st)"
| "scrape_loop scraper (t # ts) acc st =
     (let (outcome, st1) = scraper t st
      in scrape_loop scraper ts (record_outcome t outcome acc) st1)"

text \<open>\<^verbatim>\<open>teams[:max_teams] if max_teams else teams\<close>\<close>

definition teams_to_scrape :: "team_row list \<Rightarrow> int option \<Rightarrow> team_row list" where
  "teams_to_scrape teams max_teams =
     (case max_teams of
        None \<Rightarrow> teams
      | Some n \<Rightarrow>
          if n = 0 then teams
          else if 0 < n then take (nat n) teams
          else take (length teams - nat (- n)) teams)"

text \<open>
  \<^verbatim>\<open>RosterManager.scrape_teams\<close>, whose scraper is \<^verbatim>\<open>StandardScraper.scrape_team\<close>, with
  an empty division. That scraper catches every exception itself, so its outcome is
  always a list of records.
\<close>

definition standard_scraper ::
    "runtime \<Rightarrow> 'st session \<Rightarrow> bool \<Rightarrow> pystr \<Rightarrow> team_row \<Rightarrow> 'st \<Rightarrow>
     (exc + player list) \<times> 'st" where
  "standard_scraper rt get scrape_profiles seas t st =
     (case scrape_team rt get scrape_profiles st (t_ncaa_id t) (t_team t) (t_url t) seas [] of
        (players, lg, st1) \<Rightarrow> (Inr players, st1))"

definition scrape_teams ::
    "runtime \<Rightarrow> 'st session \<Rightarrow> bool \<Rightarrow> pystr \<Rightarrow> manager \<Rightarrow> 'st \<Rightarrow> team_row list \<Rightarrow>
     int option \<Rightarrow> (player list \<times> manager) \<times> 'st" where
  "scrape_teams rt get scrape_profiles seas m st teams max_teams =
     scrape_loop (standard_scraper rt get scrape_profiles seas)
       (teams_to_scrape teams max_teams) ([], m) st"

section \<open>ProfileEnhancer\<close>

text \<open>
  A row is a dictionary of \<^verbatim>\<open>csv.DictReader\<close>: it maps the column names to the cells of
  a line, and the columns that a short line does not reach to \<^verbatim>\<open>None\<close>. (The cells beyond
  the header, kept under the key \<^verbatim>\<open>None\<close>, are never read.) \<^verbatim>\<open>row.get(key)\<close> is true when
  the key has a value that is a string and not empty.
\<close>

type_synonym row = "pystr \<rightharpoonup> pystr option"

definition filled :: "row \<Rightarrow> string \<Rightarrow> bool" where
  "filled r key = (case r (py key) of Some (Some v) \<Rightarrow> v \<noteq> [] | _ \<Rightarrow> False)"

text \<open>\<^verbatim>\<open>row[key] = v\<close>\<close>

definition put :: "string \<Rightarrow> pystr \<Rightarrow> row \<Rightarrow> row" where
  "put key v r = r(py key \<mapsto> Some v)"

definition put_hometown :: "pystr \<Rightarrow> row \<Rightarrow> row" where
  "put_hometown v r =
     (let (ht, hs) = extract_hometown_parts v;
          r1 = put ''hometown'' ht r
      in if hs \<noteq> [] \<and> \<not> filled r1 ''high_school'' then put ''high_school'' hs r1 else r1)"

text \<open>
  One labelled value of the bio block and of the definition list: here the test of the
  column is part of each condition of the chain.
\<close>

definition row_bio_field :: "runtime \<Rightarrow> pystr \<Rightarrow> pystr \<Rightarrow> row \<Rightarrow> row" where
  "row_bio_field rt label v r =
     (if v = [] \<or> v = py ''-'' then r
      else if (has label ''position'' \<or> has label ''pos'') \<and> \<not> filled r ''position'' then
        put ''position'' (extract_position rt v) r
      else if (has label ''height'' \<or> has label ''ht'') \<and> \<not> filled r ''height'' then
        put ''height'' (if extract_height rt v \<noteq> [] then extract_height rt v else v) r
      else if (has label ''class'' \<or> has label ''year'' \<or> has label ''eligibility'') \<and>
          \<not> filled r ''class'' then
        put ''class'' (normalize_academic_year v) r
      else if (has label ''major'' \<or> has label ''academic'') \<and> \<not> filled r ''major'' then
        put ''major'' v r
      else if has label ''hometown'' \<and> \<not> filled r ''hometown'' then put_hometown v r
      else if (has label ''high school'' \<or> has label ''hs'') \<and> \<not> filled r ''high_school'' then
        put ''high_school'' v r
      else if (has label ''previous school'' \<or> has label ''last school'' \<or>
          has label ''transfer'') \<and> \<not> filled r ''previous_school'' then
        put ''previous_school'' v r
      else r)"

definition row_table_field :: "runtime \<Rightarrow> pystr \<Rightarrow> pystr \<Rightarrow> row \<Rightarrow> row" where
  "row_table_field rt label v r =
     (if v = [] \<or> v = py ''-'' then r
      else if has label ''position'' \<and> \<not> filled r ''position'' then
        put ''position'' (extract_position rt v) r
      else if has label ''height'' \<and> \<not> filled r ''height'' then
        put ''height'' (if extract_height rt v \<noteq> [] then extract_height rt v else v) r
      else if (has label ''class'' \<or> has label ''year'') \<and> \<not> filled r ''class'' then
        put ''class'' (normalize_academic_year v) r
      else if has label ''major'' \<and> \<not> filled r ''major'' then put ''major'' v r
      else if has label ''hometown'' \<and> \<not> filled r ''hometown'' then put_hometown v r
      else if has label ''high school'' \<and> \<not> filled r ''high_school'' then
        put ''high_school'' v r
      else if has label ''previous school'' \<and> \<not> filled r ''previous_school'' then
        put ''previous_school'' v r
      else r)"

definition row_bio_item :: "runtime \<Rightarrow> node \<Rightarrow> row \<Rightarrow> row" where
  "row_bio_item rt item r =
     (case find_first [py ''span''] (Some (py ''sidearm-roster-player-bio-label'')) item of
        None \<Rightarrow> r
      | Some l \<Rightarrow>
          (case find_first [py ''span''] (Some (py ''sidearm-roster-player-bio-value'')) item of
             None \<Rightarrow> r
           | Some v \<Rightarrow> row_bio_field rt (label_of rt l) (value_of v) r))"

definition row_detail_row :: "runtime \<Rightarrow> node \<Rightarrow> row \<Rightarrow> row" where
  "row_detail_row rt row_html r =
     (let cells = find_all [py ''th'', py ''td''] None row_html
      in if 2 \<le> length cells
         then row_table_field rt (label_of rt (cells ! 0)) (value_of (cells ! 1)) r
         else r)"

text \<open>The bio block, the definition list and the detail tables of a profile page.\<close>

definition enhance_page :: "runtime \<Rightarrow> node \<Rightarrow> row \<Rightarrow> row" where
  "enhance_page rt html r =
     (let r1 = (case find_first [py ''div''] (Some (py ''sidearm-roster-player-bio'')) html of
                  None \<Rightarrow> r
                | Some bio_section \<Rightarrow>
                    fold (row_bio_item rt)
                      (find_all [py ''div''] (Some (py ''sidearm-roster-player-bio-item''))
                         bio_section) r);
          r2 = (case find_first [py ''dl''] (Some (py ''sidearm-roster-player-bio'')) html of
                  None \<Rightarrow> r1
                | Some dl_section \<Rightarrow>
                    fold (\<lambda>(dt, dd). row_bio_field rt (label_of rt dt) (value_of dd))
                      (zip (find_all [py ''dt''] None dl_section)
                         (find_all [py ''dd''] None dl_section)) r1)
      in fold (\<lambda>table. fold (row_detail_row rt) (find_all [py ''tr''] None table))
           (find_all [py ''table''] (Some (py ''sidearm-table'')) html) r2)"

text \<open>
  \<^verbatim>\<open>row.get('url', '').strip()\<close>: the default is for a row without the column; the
  \<^verbatim>\<open>None\<close> of a short line has no \<^verbatim>\<open>strip\<close>, and the call raises \<^verbatim>\<open>AttributeError\<close>.
\<close>

definition attribute_error :: exc where
  "attribute_error =
     OtherException ([39] @ py ''NoneType'' @ [39] @ py '' object has no attribute '' @
       [39] @ py ''strip'' @ [39])"

definition row_url :: "row \<Rightarrow> exc + pystr" where
  "row_url r =
     (case r (py ''url'') of
        None \<Rightarrow> Inr (strip [])
      | Some None \<Rightarrow> Inl attribute_error
      | Some (Some u) \<Rightarrow> Inr (strip u))"

text \<open>
  \<^verbatim>\<open>has_data = any([row.get('position'), row.get('height'), row.get('class'),
  row.get('hometown')])\<close>
\<close>

definition has_data :: "row \<Rightarrow> bool" where
  "has_data r =
     (filled r ''position'' \<or> filled r ''height'' \<or> filled r ''class'' \<or> filled r ''hometown'')"

text \<open>
  \<^verbatim>\<open>ProfileEnhancer.scrape_player_profile\<close>: the row it returns or the exception it
  raises, and the state of the session afterwards. The URL is read before the \<^verbatim>\<open>try\<close>, so
  its exception is raised to the caller. Inside the \<^verbatim>\<open>try\<close> comes
  \<^verbatim>\<open>time.sleep(self.delay)\<close> first, which raises for a delay that is negative, not a
  number or too large: \<open>sleep\<close> is the exception that it raises for the delay of the
  enhancer, if any. Every exception inside the \<^verbatim>\<open>try\<close> is caught, and the row returned as
  it is then; the page is read after the last call that can raise.
\<close>

definition enhancer_scrape_player_profile ::
    "runtime \<Rightarrow> exc option \<Rightarrow> 'st session \<Rightarrow> 'st \<Rightarrow> row \<Rightarrow> bool \<Rightarrow> (exc + row) \<times> 'st" where
  "enhancer_scrape_player_profile rt sleep get st r force =
     (case row_url r of
        Inl e \<Rightarrow> (Inl e, st)
      | Inr u \<Rightarrow>
          if u = [] then (Inr r, st)
          else if \<not> force \<and> has_data r then (Inr r, st)
          else case sleep of
            Some e \<Rightarrow> (Inr r, st)
          | None \<Rightarrow>
              (case get st u of
                 (Inl e, st') \<Rightarrow> (Inr r, st')
               | (Inr resp, st') \<Rightarrow>
                   if status_code resp \<noteq> 200 then (Inr r, st')
                   else (Inr (enhance_page rt (content resp) r), st')))"

section \<open>A runtime for ASCII text\<close>

text \<open>
  A runtime to evaluate the program at concrete pages. It agrees with CPython on text
  made of ASCII characters and of the four other code points that \<^verbatim>\<open>re.IGNORECASE\<close>
  matches with an ASCII letter (U+0130, U+0131, U+017F, U+212A), and with
  \<^verbatim>\<open>tldextract\<close> on hosts whose public suffix is their last label.
\<close>

definition upper_cp :: "nat \<Rightarrow> nat" where
  "upper_cp c = (if 97 \<le> c \<and> c \<le> 122 then c - 32 else if c = 305 then 73
                 else if c = 383 then 83 else c)"

definition lower_cp :: "nat \<Rightarrow> pystr" where
  "lower_cp c = (if 65 \<le> c \<and> c \<le> 90 then [c + 32] else if c = 304 then [105, 775]
                 else if c = 8490 then [107] else [c])"

fun split_on :: "nat \<Rightarrow> pystr \<Rightarrow> pystr list" where
  "split_on d [] = [[]]"
| "split_on d (c # cs) =
     (case split_on d cs of
        [] \<Rightarrow> [[c]]
      | p # ps \<Rightarrow> if c = d then [] # p # ps else (c # p) # ps)"

fun join :: "nat \<Rightarrow> pystr list \<Rightarrow> pystr" where
  "join d [] = []"
| "join d [p] = p"
| "join d (p # q # ps) = p @ d # join d (q # ps)"

fun after_scheme :: "pystr \<Rightarrow> pystr" where
  "after_scheme [] = []"
| "after_scheme (c # cs) =
     (if startswith (c # cs) (py ''://'') then drop 3 (c # cs) else after_scheme cs)"

definition host_of :: "pystr \<Rightarrow> pystr" where
  "host_of u = takeWhile (\<lambda>c. c \<noteq> 47)
     (if contains u (py ''://'') then after_scheme u else u)"

definition simple_tldextract :: "pystr \<Rightarrow> pystr \<times> pystr \<times> pystr" where
  "simple_tldextract u =
     (case rev (split_on 46 (host_of u)) of
        [] \<Rightarrow> ([], [], [])
      | [d] \<Rightarrow> ([], d, [])
      | s # d # sub \<Rightarrow> (join 46 (rev sub), d, s))"

definition ascii_runtime :: runtime where
  "ascii_runtime =
     \<lparr>isalnum = (\<lambda>c. (48 \<le> c \<and> c \<le> 57) \<or> (65 \<le> c \<and> c \<le> 90) \<or> (97 \<le> c \<and> c \<le> 122) \<or>
          c = 304 \<or> c = 305 \<or> c = 383 \<or> c = 8490),
      decimal = (\<lambda>c. if 48 \<le> c \<and> c \<le> 57 then Some (c - 48) else None),
      str_upper = map upper_cp,
      str_lower = (\<lambda>s. concat (map lower_cp s)),
      tldextract = simple_tldextract\<rparr>"

section \<open>Example pages and sessions\<close>

text \<open>A tag without link, a text, and a labelled custom field of a roster item.\<close>

definition el :: "string \<Rightarrow> string list \<Rightarrow> node list \<Rightarrow> node" where
  "el n cs ks = Tag (py n) (map py cs) None ks"

definition tx :: "string \<Rightarrow> node" where
  "tx s = Text (py s)"

definition custom_field :: "string \<Rightarrow> string \<Rightarrow> node" where
  "custom_field l v =
     el ''div'' [''sidearm-roster-player-custom-fields'']
       [el ''span'' [''sidearm-roster-player-custom-field-label''] [tx l],
        el ''span'' [''sidearm-roster-player-custom-field-value''] [tx v]]"

text \<open>A table row of cells of one kind.\<close>

definition table_row :: "string \<Rightarrow> string list \<Rightarrow> node" where
  "table_row c xs = el ''tr'' [] (map (\<lambda>x. el c [] [tx x]) xs)"

text \<open>A session whose every request raises, and one that serves one page for every URL.\<close>

definition offline :: "unit session" where
  "offline st u = (Inl (RequestException (py ''connection refused'')), st)"


definition unc :: pystr where
  "unc = py ''https://goheels.com/sports/field-hockey''"

text \<open>A roster of one item whose class is given as a dash.\<close>

definition dash_page :: node where
  "dash_page =
     el ''[document]'' []
       [el ''ul'' []
          [el ''li'' [''sidearm-roster-player'']
             [el ''h3'' [] [tx ''Alice Smith''],
              custom_field ''Position'' ''Midfield'',
              custom_field ''Class'' ''-'']]]"

text \<open>A roster table with its header in \<^verbatim>\<open>thead\<close> and two players in \<^verbatim>\<open>tbody\<close>.\<close>

definition two_players_body :: node where
  "two_players_body =
     el ''tbody'' []
       [table_row ''td'' [''Alice Smith'', ''F''],
        table_row ''td'' [''Bea Jones'', ''D'']]"

definition thead_page :: node where
  "thead_page =
     el ''[document]'' []
       [el ''table'' [''sidearm-table'']
          [el ''thead'' [] [table_row ''th'' [''Name'', ''Pos'']], two_players_body]]"


text \<open>A profile page whose bio block gives the position Forward.\<close>

definition forward_profile :: node where
  "forward_profile =
     el ''[document]'' []
       [el ''div'' [''sidearm-roster-player-bio'']
          [el ''div'' [''sidearm-roster-player-bio-item'']
             [el ''span'' [''sidearm-roster-player-bio-label''] [tx ''Position''],
              el ''span'' [''sidearm-roster-player-bio-value''] [tx ''Forward'']],
           el ''div'' [''sidearm-roster-player-bio-item'']
             [el ''span'' [''sidearm-roster-player-bio-label''] [tx ''Major''],
              el ''span'' [''sidearm-roster-player-bio-value''] [tx ''Biology'']]]]"

definition a_defender :: player where
  "a_defender =
     \<lparr>team_id = 457, team = py ''UNC'', season = py ''2025'', division = [],
      player_id = None, name = py ''Alice Smith'', jersey = py ''12'', position = py ''D'',
      height = [], year = [], major = [], hometown = [], high_school = [],
      previous_school = [], url = py ''https://goheels.com/roster/alice''\<rparr>"

text \<open>A session that serves one page for every URL and counts the requests.\<close>

definition counting :: "node \<Rightarrow> nat session" where
  "counting page n u = (Inr \<lparr>status_code = 200, content = page\<rparr>, Suc n)"

text \<open>
  A row of the roster CSV with a URL and a position, and the row of a line
  \<^verbatim>\<open>Alice Smith,D\<close> under the header \<^verbatim>\<open>name,position,url\<close>.
\<close>

definition populated_row :: row where
  "populated_row =
     [py ''name'' \<mapsto> Some (py ''Alice Smith''), py ''position'' \<mapsto> Some (py ''D''),
      py ''url'' \<mapsto> Some (py ''https://goheels.com/roster/alice'')]"

definition short_row :: row where
  "short_row =
     [py ''name'' \<mapsto> Some (py ''Alice Smith''), py ''position'' \<mapsto> Some (py ''D''),
      py ''url'' \<mapsto> None]"

text \<open>The same roster under a heading that names the season.\<close>

definition dated_page :: node where
  "dated_page =
     el ''[document]'' []
       [el ''h1'' [] [tx ''2025 Field Hockey Roster''],
        el ''ul'' []
          [el ''li'' [''sidearm-roster-player'']
             [el ''h3'' [] [tx ''Alice Smith''],
              custom_field ''Position'' ''Midfield'',
              custom_field ''Class'' ''-'']]]"

text \<open>
  Two sessions that count their requests: one answers 404 to every URL but the
  \<^verbatim>\<open>roster.aspx\<close> of the site, where it serves a page; the other answers 404 to all.
\<close>

definition empty_page :: node where
  "empty_page = el ''[document]'' [] []"

definition aspx_only :: "node \<Rightarrow> nat session" where
  "aspx_only page n u =
     (if u = unc @ py ''/roster.aspx'' then Inr \<lparr>status_code = 200, content = page\<rparr>
      else Inr \<lparr>status_code = 404, content = empty_page\<rparr>, Suc n)"

definition not_found :: "nat session" where
  "not_found n u = (Inr \<lparr>status_code = 404, content = empty_page\<rparr>, Suc n)"

text \<open>
  A manager before its first team, the team of the examples, and a scraper that raises
  for team 1, finds nobody for team 2 and one player for every other team.
\<close>

definition no_report :: manager where
  "no_report = \<lparr>zero_player_teams = [], failed_teams = [], successful_teams = []\<rparr>"

definition unc_team :: team_row where
  "unc_team = \<lparr>t_team = py ''UNC'', t_ncaa_id = 457, t_url = unc\<rparr>"

definition team_number :: "int \<Rightarrow> team_row" where
  "team_number i = \<lparr>t_team = py ''Team'', t_ncaa_id = i, t_url = unc\<rparr>"

definition moody_scraper :: "team_row \<Rightarrow> nat \<Rightarrow> (exc + player list) \<times> nat" where
  "moody_scraper t n =
     (if t_ncaa_id t = 1 then Inl (OtherException (py ''boom''))
      else if t_ncaa_id t = 2 then Inr [] else Inr [a_defender], Suc n)"


section \<open>Auxiliary predicates\<close>

text \<open>
  A string is collapsed when its only whitespace is U+0020 and no two whitespace
  characters are adjacent.
\<close>

fun collapsed :: "pystr \<Rightarrow> bool" where
  "collapsed [] = True"
| "collapsed [c] = (isspace c \<longrightarrow> c = 32)"
| "collapsed (c # d # cs) =
     ((isspace c \<longrightarrow> c = 32 \<and> \<not> isspace d) \<and> collapsed (d # cs))"

text \<open>
  The words of a string, as \<^verbatim>\<open>s.split()\<close> gives them: its maximal runs of characters
  that are not whitespace, from left to right.
\<close>

function words_of :: "pystr \<Rightarrow> pystr list" where
  "words_of s =
     (case dropWhile isspace s of
        [] \<Rightarrow> []
      | c # cs \<Rightarrow>
          takeWhile (\<lambda>x. \<not> isspace x) (c # cs) #
          words_of (dropWhile (\<lambda>x. \<not> isspace x) (c # cs)))"
  by pat_completeness auto
termination
proof (relation "measure length", goal_cases)
  case 1
  show ?case by simp
next
  case (2 s c cs)
  have "\<not> isspace c"
    using hd_dropWhile [of isspace s] 2 by simp
  then have "length (dropWhile (\<lambda>x. \<not> isspace x) (c # cs)) \<le> length cs"
    by (simp add: length_dropWhile_le)
  moreover have "length (c # cs) \<le> length s"
    using length_dropWhile_le [of isspace s] 2 by simp
  ultimately show ?case by simp
qed

declare words_of.simps [simp del]

text \<open>
  The teams of a run, each with the outcome of the call of the scraper for it (the
  exception raised, or the records returned), the state of the session passed from one
  call to the next; the list of the report that an outcome belongs to; and what the
  outcomes add to the three lists and to the records of the run.
\<close>

fun outcomes ::
    "(team_row \<Rightarrow> 'st \<Rightarrow> (exc + player list) \<times> 'st) \<Rightarrow> team_row list \<Rightarrow> 'st \<Rightarrow>
     (team_row \<times> (exc + player list)) list" where
  "outcomes scraper [] st = []"
| "outcomes scraper (t # ts) st =
     (let (outcome, st1) = scraper t st in (t, outcome) # outcomes scraper ts st1)"

datatype report = Zero_players | Failed | Successful

fun report_of :: "exc + player list \<Rightarrow> report" where
  "report_of (Inl e) = Failed"
| "report_of (Inr players) = (if players = [] then Zero_players else Successful)"

definition zero_entries :: "(team_row \<times> (exc + player list)) list \<Rightarrow> team_row list" where
  "zero_entries os = map fst (filter (\<lambda>(t, outcome). report_of outcome = Zero_players) os)"

definition failed_entries ::
    "(team_row \<times> (exc + player list)) list \<Rightarrow> (team_row \<times> pystr) list" where
  "failed_entries os =
     map (\<lambda>(t, outcome). (t, case outcome of Inl e \<Rightarrow> message e | Inr players \<Rightarrow> []))
       (filter (\<lambda>(t, outcome). report_of outcome = Failed) os)"

definition successful_entries ::
    "(team_row \<times> (exc + player list)) list \<Rightarrow> (pystr \<times> int \<times> nat) list" where
  "successful_entries os =
     map (\<lambda>(t, outcome). (t_team t, t_ncaa_id t,
            case outcome of Inl e \<Rightarrow> 0 | Inr players \<Rightarrow> length players))
       (filter (\<lambda>(t, outcome). report_of outcome = Successful) os)"

definition players_of :: "(team_row \<times> (exc + player list)) list \<Rightarrow> player list" where
  "players_of os =
     concat (map (\<lambda>(t, outcome). case outcome of Inl e \<Rightarrow> [] | Inr players \<Rightarrow> players) os)"



text \<open>
  The split of a text at its first slash, each side trimmed, and the whole text trimmed
  with no second part when it has no slash: the reading of \<^verbatim>\<open>extract_hometown_parts\<close>
  that its documentation gives, to be compared with the function.
\<close>

definition split_at_first_slash :: "pystr \<Rightarrow> pystr \<times> pystr" where
  "split_at_first_slash s =
     (if 47 \<in> set s
      then (strip (takeWhile (\<lambda>c. c \<noteq> 47) s), strip (tl (dropWhile (\<lambda>c. c \<noteq> 47) s)))
      else (strip s, []))"

text \<open>The pattern of \<^verbatim>\<open>hometown_re\<close> after its first group, which has matched \<open>g1\<close>.\<close>

definition after_town :: "pystr \<Rightarrow> (pystr \<times> pystr) cont" where
  "after_town g1 =
     star isspace (chr_if (\<lambda>c. c = 47) (star isspace (
       grp (plus (\<lambda>c. c \<noteq> 10)) (\<lambda>g2 b r. Some (g1, g2)))))"


section \<open>Evaluation of the examples\<close>

text \<open>The definitions by which the program is evaluated at a concrete page.\<close>

lemmas str_ev = py_def strip_def lstrip_def rstrip_def isspace_def startswith_def has_def
  clean_text_def

lemmas dom_ev = el_def tx_def custom_field_def table_row_def find_first_def find_all_def
  find_link_def label_of_def value_of_def

lemmas rt_ev = ascii_runtime_def lower_cp_def upper_cp_def word_char_def digit_def

lemmas re_ev = re_search_def re_match_def chr_if_def plus_def lazy_plus_def opt_def rep12_def
  lit_def grp_def ret_def at_boundary_def bdry_def look_def bol_def eol_def ieq_def

lemmas pos_ev = extract_position_def position_re_def position_tokens_def

lemmas int_ev = py_int_def to_ascii_def ascii_space_def ascii_digit_def read_nat_def
  str_int_def last2_def

lemma dash_page_players:
  "extract_players ascii_runtime get False st dash_page tid tm seas divn base_url =
     ([\<lparr>team_id = tid, team = tm, season = seas, division = divn, player_id = None,
        name = py ''Alice Smith'', jersey = [], position = py ''M'', height = [],
        year = py ''-'', major = [], hometown = [], high_school = [], previous_school = [],
        url = []\<rparr>], st)"
  by (simp add: extract_players_def dash_page_def extract_item_def name_and_url_def
      meta_field_def normalize_academic_year_def year_map_def
      str_ev dom_ev rt_ev re_ev pos_ev Let_def split del: if_split)

lemma dated_page_players:
  "extract_players ascii_runtime get False st dated_page tid tm seas divn base_url =
     ([\<lparr>team_id = tid, team = tm, season = seas, division = divn, player_id = None,
        name = py ''Alice Smith'', jersey = [], position = py ''M'', height = [],
        year = py ''-'', major = [], hometown = [], high_school = [], previous_school = [],
        url = []\<rparr>], st)"
  by (simp add: extract_players_def dated_page_def extract_item_def name_and_url_def
      meta_field_def normalize_academic_year_def year_map_def
      str_ev dom_ev rt_ev re_ev pos_ev Let_def split del: if_split)

lemma dash_page_season: "\<not> verify_season_on_page ascii_runtime dash_page (py ''2025'')"
  by (simp add: verify_season_on_page_def dash_page_def int_ev str_ev dom_ev rt_ev Let_def
      split del: if_split)

lemma dated_page_season: "verify_season_on_page ascii_runtime dated_page (py ''2025'')"
  by (simp add: verify_season_on_page_def dated_page_def int_ev str_ev dom_ev rt_ev Let_def
      split del: if_split)

lemma unc_roster_urls:
  "rstrip_slash unc @ py ''/roster/'' @ py ''2025'' \<noteq> unc @ py ''/roster.aspx''"
  "rstrip_slash unc @ py ''/roster'' \<noteq> unc @ py ''/roster.aspx''"
  "rstrip_slash unc @ py ''/roster.aspx'' = unc @ py ''/roster.aspx''"
  by (simp_all add: rstrip_slash_def unc_def py_def)

lemma build_roster_url_eq:
  "build_roster_url base_url seas f = rstrip_slash base_url @ py ''/roster/'' @ seas"
  by (simp add: build_roster_url_def Let_def)
section \<open>Properties of clean\_text\<close>

lemma isspace_32: "isspace 32"
  by (simp add: isspace_def)

lemma collapsed_sub_ws: "collapsed (sub_ws s)"
proof (induction s rule: sub_ws.induct)
  case 1
  show ?case by simp
next
  case (2 c cs)
  show ?case
  proof (cases "isspace c")
    case True
    have hd: "dropWhile isspace cs = [] \<or> \<not> isspace (hd (dropWhile isspace cs))"
      using hd_dropWhile [of isspace cs] by blast
    have ih: "collapsed (sub_ws (dropWhile isspace cs))"
      using 2 True by simp
    show ?thesis
    proof (cases "dropWhile isspace cs")
      case Nil
      have "sub_ws (c # cs) = 32 # sub_ws (dropWhile isspace cs)"
        using True by simp
      also have "\<dots> = [32]"
        by (simp only: Nil sub_ws.simps)
      finally show ?thesis by (simp add: isspace_32)
    next
      case (Cons d ds)
      with hd have nd: "\<not> isspace d" by simp
      from ih Cons nd True show ?thesis by simp
    qed
  next
    case False
    with 2 show ?thesis by (cases "sub_ws cs") simp_all
  qed
qed

lemma sub_ws_collapsed: "collapsed s \<Longrightarrow> sub_ws s = s"
  by (induction s rule: collapsed.induct) (auto split: if_splits)

lemma collapsed_append: "collapsed (xs @ ys) \<Longrightarrow> collapsed xs \<and> collapsed ys"
proof (induction xs rule: collapsed.induct)
  case 1
  then show ?case by simp
next
  case (2 c)
  then show ?case by (cases ys) auto
next
  case (3 c d cs)
  then show ?case by auto
qed

lemma rstrip_decomp: "s = rstrip s @ rev (takeWhile isspace (rev s))"
proof -
  have "rev (takeWhile isspace (rev s) @ dropWhile isspace (rev s)) = rev (rev s)"
    by (simp only: takeWhile_dropWhile_id)
  then have "rev (dropWhile isspace (rev s)) @ rev (takeWhile isspace (rev s)) = s"
    by (simp only: rev_append rev_rev_ident)
  then show ?thesis
    by (simp only: rstrip_def)
qed

lemma lstrip_decomp: "s = takeWhile isspace s @ lstrip s"
  by (simp add: lstrip_def)

lemma collapsed_strip: "collapsed s \<Longrightarrow> collapsed (strip s)"
proof -
  assume c: "collapsed s"
  have "collapsed (lstrip s)"
    using c collapsed_append [of "takeWhile isspace s" "lstrip s"] lstrip_decomp [of s]
    by simp
  then show ?thesis
    using collapsed_append [of "rstrip (lstrip s)" "rev (takeWhile isspace (rev (lstrip s)))"]
      rstrip_decomp [of "lstrip s"]
    by (simp add: strip_def)
qed

lemma lstrip_id: "s = [] \<or> \<not> isspace (hd s) \<Longrightarrow> lstrip s = s"
  by (cases s) (auto simp: lstrip_def)

lemma rstrip_id: "s = [] \<or> \<not> isspace (last s) \<Longrightarrow> rstrip s = s"
proof (cases "s = []")
  case True
  then show ?thesis by (simp add: rstrip_def)
next
  case False
  assume "s = [] \<or> \<not> isspace (last s)"
  with False have "\<not> isspace (hd (rev s))" by (simp add: hd_rev)
  with False have "dropWhile isspace (rev s) = rev s"
    by (cases "rev s") auto
  then show ?thesis by (simp add: rstrip_def)
qed

lemma rstrip_last: "rstrip s = [] \<or> \<not> isspace (last (rstrip s))"
proof -
  have "dropWhile isspace (rev s) = [] \<or> \<not> isspace (hd (dropWhile isspace (rev s)))"
    using hd_dropWhile [of isspace "rev s"] by blast
  then show ?thesis
    by (auto simp: rstrip_def last_rev)
qed

lemma lstrip_hd: "lstrip s = [] \<or> \<not> isspace (hd (lstrip s))"
  using hd_dropWhile [of isspace s] by (auto simp: lstrip_def)

lemma rstrip_hd: "rstrip s \<noteq> [] \<Longrightarrow> hd (rstrip s) = hd s"
proof -
  assume ne: "rstrip s \<noteq> []"
  have "hd s = hd (rstrip s @ rev (takeWhile isspace (rev s)))"
    using rstrip_decomp [of s] by simp
  with ne show ?thesis by simp
qed

lemma strip_strip: "strip (strip s) = strip s"
proof -
  have h: "strip s = [] \<or> \<not> isspace (hd (strip s))"
  proof (cases "strip s = []")
    case True
    then show ?thesis by simp
  next
    case False
    then have ne: "rstrip (lstrip s) \<noteq> []" by (simp add: strip_def)
    then have "lstrip s \<noteq> []" by (auto simp: rstrip_def)
    with lstrip_hd [of s] have "\<not> isspace (hd (lstrip s))" by simp
    with rstrip_hd [OF ne] show ?thesis by (simp add: strip_def)
  qed
  have l: "strip s = [] \<or> \<not> isspace (last (strip s))"
    using rstrip_last [of "lstrip s"] by (simp add: strip_def)
  have "lstrip (strip s) = strip s" using h by (rule lstrip_id)
  moreover have "rstrip (strip s) = strip s" using l by (rule rstrip_id)
  ultimately show ?thesis by (simp add: strip_def [of "strip s"])
qed

lemma words_of_Nil: "words_of [] = []"
  by (simp add: words_of.simps)

lemma words_of_lstrip: "words_of (lstrip s) = words_of s"
proof -
  have "dropWhile isspace (lstrip s) = dropWhile isspace s"
    by (simp add: lstrip_def)
  then show ?thesis
    by (subst words_of.simps [of "lstrip s"], subst words_of.simps [of s]) (simp only:)
qed

lemma words_of_word:
  "\<not> isspace c \<Longrightarrow>
   words_of (c # cs) =
     (c # takeWhile (\<lambda>x. \<not> isspace x) cs) # words_of (dropWhile (\<lambda>x. \<not> isspace x) cs)"
  by (simp add: words_of.simps [of "c # cs"])

lemma sub_ws_word: "\<forall>c\<in>set w. \<not> isspace c \<Longrightarrow> sub_ws (w @ r) = w @ sub_ws r"
  by (induction w) simp_all

lemma sub_ws_hd: "s \<noteq> [] \<Longrightarrow> \<not> isspace (hd s) \<Longrightarrow> sub_ws s \<noteq> [] \<and> hd (sub_ws s) = hd s"
  by (cases s) simp_all

lemma lstrip_sub_ws: "lstrip (sub_ws s) = sub_ws (lstrip s)"
proof (cases s)
  case Nil
  then show ?thesis by (simp add: lstrip_def)
next
  case (Cons c cs)
  show ?thesis
  proof (cases "isspace c")
    case True
    let ?r = "dropWhile isspace cs"
    have r: "?r = [] \<or> \<not> isspace (hd ?r)"
      using hd_dropWhile [of isspace cs] by blast
    have "lstrip (sub_ws ?r) = sub_ws ?r"
    proof (rule lstrip_id)
      show "sub_ws ?r = [] \<or> \<not> isspace (hd (sub_ws ?r))"
      proof (cases "?r = []")
        case True
        have "sub_ws ?r = []" by (simp only: True sub_ws.simps)
        then show ?thesis by (rule disjI1)
      next
        case False
        with r have nsp: "\<not> isspace (hd ?r)" by blast
        have "hd (sub_ws ?r) = hd ?r"
          using sub_ws_hd [OF False nsp] by (rule conjunct2)
        with nsp show ?thesis by (simp only: not_False_eq_True simp_thms)
      qed
    qed
    then show ?thesis
      using Cons True by (simp add: lstrip_def isspace_32)
  next
    case False
    then show ?thesis using Cons by (simp add: lstrip_def)
  qed
qed

lemma rstrip_append_keep: "rstrip b \<noteq> [] \<Longrightarrow> rstrip (a @ b) = a @ rstrip b"
proof -
  assume "rstrip b \<noteq> []"
  then obtain x where x: "x \<in> set (rev b)" "\<not> isspace x"
    by (auto simp: rstrip_def)
  have "dropWhile isspace (rev b @ rev a) = dropWhile isspace (rev b) @ rev a"
    using x by (rule dropWhile_append1)
  then show ?thesis by (simp add: rstrip_def)
qed

lemma rstrip_nonempty: "x \<in> set s \<Longrightarrow> \<not> isspace x \<Longrightarrow> rstrip s \<noteq> []"
  by (auto simp: rstrip_def)

lemma rstrip_append_spaces: "\<forall>c\<in>set b. isspace c \<Longrightarrow> rstrip (a @ b) = rstrip a"
  by (simp add: rstrip_def dropWhile_append)

lemma rstrip_word: "w \<noteq> [] \<Longrightarrow> \<forall>c\<in>set w. \<not> isspace c \<Longrightarrow> rstrip w = w"
  by (rule rstrip_id) (simp add: last_in_set)

lemma rstrip_sub_ws:
  "t = [] \<or> \<not> isspace (hd t) \<Longrightarrow> rstrip (sub_ws t) = join 32 (words_of t)"
proof (induction "length t" arbitrary: t rule: less_induct)
  case less
  show ?case
  proof (cases t)
    case Nil
    then show ?thesis by (simp add: words_of_Nil rstrip_def)
  next
    case (Cons c cs)
    with less.prems have c: "\<not> isspace c" by simp
    let ?w = "c # takeWhile (\<lambda>x. \<not> isspace x) cs"
    let ?r = "dropWhile (\<lambda>x. \<not> isspace x) cs"
    let ?r' = "lstrip ?r"
    have w: "\<forall>x\<in>set ?w. \<not> isspace x"
      using c by (auto dest: set_takeWhileD)
    have t: "t = ?w @ ?r" using Cons by simp
    have sub: "sub_ws t = ?w @ sub_ws ?r"
      using sub_ws_word [OF w, of ?r] t by simp
    have words: "words_of t = ?w # words_of ?r'"
      using words_of_word [OF c, of cs] Cons by (simp add: words_of_lstrip)
    have len: "length ?r' < length t"
      using length_dropWhile_le [of "\<lambda>x. \<not> isspace x" cs]
        length_dropWhile_le [of isspace ?r] Cons
      by (simp add: lstrip_def)
    have ih: "rstrip (sub_ws ?r') = join 32 (words_of ?r')"
      using less.hyps [OF len] lstrip_hd [of ?r] by simp
    show ?thesis
    proof (cases ?r)
      case Nil
      have "sub_ws ?r = []" by (simp only: Nil sub_ws.simps)
      with sub have s1: "sub_ws t = ?w" by (simp only: append_Nil2)
      have "?r' = []" by (simp only: Nil lstrip_def dropWhile.simps)
      then have "words_of ?r' = []" by (simp only: words_of_Nil)
      with words have s2: "words_of t = [?w]" by (simp only:)
      have s3: "rstrip ?w = ?w" using rstrip_word [of ?w] w by simp
      show ?thesis by (simp only: s1 s2 s3 join.simps)
    next
      case r: (Cons d ds)
      have d: "isspace d"
        using hd_dropWhile [of "\<lambda>x. \<not> isspace x" cs] r by simp
      have subr: "sub_ws ?r = 32 # sub_ws ?r'"
        using r d by (simp add: lstrip_def)
      show ?thesis
      proof (cases "?r' = []")
        case True
        have "rstrip (?w @ [32]) = rstrip ?w"
          by (rule rstrip_append_spaces) (simp add: isspace_32)
        then show ?thesis
          using sub subr words True rstrip_word [of ?w] w
          by (simp add: words_of_Nil)
      next
        case False
        then have nsp: "\<not> isspace (hd ?r')" using lstrip_hd [of ?r] by simp
        obtain e es where e: "?r' = e # es" using False by (cases ?r') auto
        have ne: "\<not> isspace e" using nsp e by simp
        have "words_of ?r' \<noteq> []"
          using words_of_word [OF ne, of es] e by simp
        then obtain p ps where p: "words_of ?r' = p # ps" by (cases "words_of ?r'") auto
        have "sub_ws ?r' \<noteq> [] \<and> hd (sub_ws ?r') = hd ?r'"
          using sub_ws_hd [of ?r'] False nsp by simp
        then have "hd ?r' \<in> set (sub_ws ?r')"
          using hd_in_set [of "sub_ws ?r'"] by simp
        then have "rstrip (sub_ws ?r') \<noteq> []"
          using nsp by (rule rstrip_nonempty)
        then have "rstrip (?w @ 32 # sub_ws ?r') = ?w @ 32 # rstrip (sub_ws ?r')"
          using rstrip_append_keep [of "sub_ws ?r'" "?w @ [32]"] by simp
        then show ?thesis
          using sub subr words ih p by simp
      qed
    qed
  qed
qed

lemma strip_ends:
  "strip s = [] \<or> (\<not> isspace (hd (strip s)) \<and> \<not> isspace (last (strip s)))"
proof (cases "strip s = []")
  case True
  then show ?thesis by simp
next
  case False
  then have ne: "rstrip (lstrip s) \<noteq> []" by (simp add: strip_def)
  then have "lstrip s \<noteq> []" by (auto simp: rstrip_def)
  with lstrip_hd [of s] have "\<not> isspace (hd (lstrip s))" by simp
  with rstrip_hd [OF ne] have "\<not> isspace (hd (strip s))" by (simp add: strip_def)
  moreover have "\<not> isspace (last (strip s))"
    using rstrip_last [of "lstrip s"] False by (simp add: strip_def)
  ultimately show ?thesis by simp
qed

text \<open>
  C9. \<open>clean_text\<close> is idempotent, and maps the empty string to the empty string. Its
  result is collapsed (its only whitespace is single U+0020 characters) and trimmed (no
  whitespace at either end); it is the words of the input, in order, with one U+0020
  between two words: every run of whitespace, line feeds included, between two words has
  become one space, and the runs at the ends are gone.
\<close>

theorem clean_text_idempotent:
  "clean_text (clean_text s) = clean_text s \<and> clean_text [] = [] \<and>
   collapsed (clean_text s) \<and>
   (clean_text s = [] \<or>
      (\<not> isspace (hd (clean_text s)) \<and> \<not> isspace (last (clean_text s)))) \<and>
   clean_text s = join 32 (words_of s)"
proof -
  have c: "collapsed (strip (sub_ws s))"
    by (rule collapsed_strip) (rule collapsed_sub_ws)
  then have "sub_ws (strip (sub_ws s)) = strip (sub_ws s)"
    by (rule sub_ws_collapsed)
  then have idem: "clean_text (clean_text s) = clean_text s"
    by (simp add: clean_text_def strip_strip)
  have "strip (sub_ws s) = rstrip (sub_ws (lstrip s))"
    by (simp add: strip_def lstrip_sub_ws)
  also have "\<dots> = join 32 (words_of (lstrip s))"
    using lstrip_hd [of s] by (intro rstrip_sub_ws) simp
  finally have w: "clean_text s = join 32 (words_of s)"
    by (simp add: clean_text_def words_of_lstrip words_of_Nil)
  have col: "collapsed (clean_text s)"
    using c by (simp add: clean_text_def)
  have ends: "clean_text s = [] \<or>
      (\<not> isspace (hd (clean_text s)) \<and> \<not> isspace (last (clean_text s)))"
    using strip_ends [of "sub_ws s"] by (simp add: clean_text_def)
  have nil: "clean_text [] = []"
    by (simp add: clean_text_def)
  from idem nil col ends w show ?thesis
    by (intro conjI)
qed

section \<open>The guard of the enhancement tool\<close>

lemma populated_row_url:
  "row_url populated_row = Inr (py ''https://goheels.com/roster/alice'')"
  by (simp add: row_url_def populated_row_def py_def strip_def lstrip_def rstrip_def
      isspace_def split del: if_split)

lemma populated_row_has_data: "has_data populated_row"
  by (simp add: has_data_def filled_def populated_row_def py_def split del: if_split)

lemma short_row_url: "row_url short_row = Inl attribute_error"
  by (simp add: row_url_def short_row_def py_def split del: if_split)

lemma short_row_has_data: "has_data short_row"
  by (simp add: has_data_def filled_def short_row_def py_def split del: if_split)

text \<open>
  For a row whose URL is a string, or that has no such column: the row comes back, and
  the session is as it was, when the URL is empty, and when \<open>force\<close> is off and the row
  has data; otherwise the request is made, unless \<^verbatim>\<open>time.sleep\<close> raises.
\<close>

lemma enhancer_guard_for_string_url:
  assumes "row_url r = Inr u"
  shows
    "(u = [] \<or> (\<not> force \<and> has_data r) \<longrightarrow>
        enhancer_scrape_player_profile rt sleep get st r force = (Inr r, st)) \<and>
     (u \<noteq> [] \<and> (force \<or> \<not> has_data r) \<and> sleep = None \<longrightarrow>
        snd (enhancer_scrape_player_profile rt sleep get st r force) = snd (get st u)) \<and>
     (u \<noteq> [] \<and> (force \<or> \<not> has_data r) \<and> sleep \<noteq> None \<longrightarrow>
        enhancer_scrape_player_profile rt sleep get st r force = (Inr r, st))"
proof (intro conjI impI)
  assume "u = [] \<or> (\<not> force \<and> has_data r)"
  then show "enhancer_scrape_player_profile rt sleep get st r force = (Inr r, st)"
    using assms by (auto simp: enhancer_scrape_player_profile_def)
next
  assume a: "u \<noteq> [] \<and> (force \<or> \<not> has_data r) \<and> sleep = None"
  obtain o1 st1 where g: "get st u = (o1, st1)"
    by (cases "get st u")
  show "snd (enhancer_scrape_player_profile rt sleep get st r force) = snd (get st u)"
    using a g assms by (cases o1) (auto simp: enhancer_scrape_player_profile_def)
next
  assume "u \<noteq> [] \<and> (force \<or> \<not> has_data r) \<and> sleep \<noteq> None"
  then show "enhancer_scrape_player_profile rt sleep get st r force = (Inr r, st)"
    using assms by (auto simp: enhancer_scrape_player_profile_def)
qed

lemma enhancer_guard_populated_row:
  "enhancer_scrape_player_profile ascii_runtime None (counting forward_profile) 0 populated_row
     False = (Inr populated_row, 0) \<and>
   snd (enhancer_scrape_player_profile ascii_runtime None (counting forward_profile) 0
     populated_row True) = 1"
  using enhancer_guard_for_string_url [OF populated_row_url, of False ascii_runtime None
      "counting forward_profile" 0]
    enhancer_guard_for_string_url [OF populated_row_url, of True ascii_runtime None
      "counting forward_profile" 0]
  by (simp add: populated_row_has_data counting_def py_def)

text \<open>
  C7. The row of a line that is shorter than the header has \<^verbatim>\<open>None\<close> for its URL. It
  has data (its position), and yet, with \<open>force\<close> off as with \<open>force\<close> on,
  \<^verbatim>\<open>ProfileEnhancer.scrape_player_profile\<close> does not return it: it raises
  \<^verbatim>\<open>AttributeError\<close>, for every session and before any request.
\<close>

theorem enhancer_raises_on_short_row:
  "has_data short_row \<and>
   enhancer_scrape_player_profile rt sleep get st short_row force = (Inl attribute_error, st)"
  by (simp add: enhancer_scrape_player_profile_def short_row_url short_row_has_data)

section \<open>The requests of scrape\_team\<close>

text \<open>
  C4. When the request for \<^verbatim>\<open>{base}/roster/{season}\<close> is answered 404, \<open>{base}/roster\<close>
  is requested; when that is answered 200, the records are those of its page. When it is
  answered by another status, \<^verbatim>\<open>{base}/roster.aspx\<close> is requested; when that is answered
  200, the records are those of its page, and when it is not, there is no record and a
  warning in the log. A request that raises gives no record and an error in the log:
  in every case \<open>scrape_team\<close> returns.
\<close>

theorem roster_retry_chain:
  assumes first: "get (snd (get st (if contains base_url (py ''/sports'')
                       then before_first (py ''/sports'') base_url else base_url)))
                    (rstrip_slash base_url @ py ''/roster/'' @ seas) = (Inr r1, st1)"
    and nf: "status_code r1 = 404"
    and second: "get st1 (rstrip_slash base_url @ py ''/roster'') = (a2, st2)"
    and third: "get st2 (rstrip_slash base_url @ py ''/roster.aspx'') = (a3, st3)"
  shows
    "(\<forall>r2. a2 = Inr r2 \<and> status_code r2 = 200 \<longrightarrow>
        fst (scrape_team rt get sp st tid team_name base_url seas divn) =
        fst (extract_players rt get sp st2 (content r2) tid team_name seas divn base_url)) \<and>
     (\<forall>r2 r3. a2 = Inr r2 \<and> status_code r2 \<noteq> 200 \<and> a3 = Inr r3 \<and> status_code r3 = 200 \<longrightarrow>
        fst (scrape_team rt get sp st tid team_name base_url seas divn) =
        fst (extract_players rt get sp st3 (content r3) tid team_name seas divn base_url)) \<and>
     (\<forall>r2 r3. a2 = Inr r2 \<and> status_code r2 \<noteq> 200 \<and> a3 = Inr r3 \<and> status_code r3 \<noteq> 200 \<longrightarrow>
        scrape_team rt get sp st tid team_name base_url seas divn =
        ([], [Warning_failed_to_retrieve team_name (status_code r3)], st3)) \<and>
     (\<forall>e. a2 = Inl e \<longrightarrow>
        scrape_team rt get sp st tid team_name base_url seas divn =
        ([], [Error_scraping team_name e], st2)) \<and>
     (\<forall>r2 e. a2 = Inr r2 \<and> status_code r2 \<noteq> 200 \<and> a3 = Inl e \<longrightarrow>
        scrape_team rt get sp st tid team_name base_url seas divn =
        ([], [Error_scraping team_name e], st3))"
  using first nf second third
  by (auto simp: scrape_team_def fetch_roster_def build_roster_url_eq Let_def
      split: prod.splits sum.splits)

text \<open>
  A site that answers 404, 404 and then 200 with the roster of Alice Smith: her record is
  found after four requests. A site that answers 404 to all: no record, a warning, four
  requests.
\<close>

theorem roster_retry_chain_witness:
  "fst (scrape_team ascii_runtime (aspx_only dash_page) False 0 457 (py ''UNC'') unc
          (py ''2025'') []) =
     fst (extract_players ascii_runtime (aspx_only dash_page) False 4 dash_page 457 (py ''UNC'')
          (py ''2025'') [] unc) \<and>
   map name (fst (scrape_team ascii_runtime (aspx_only dash_page) False 0 457 (py ''UNC'') unc
          (py ''2025'') [])) = [py ''Alice Smith''] \<and>
   scrape_team ascii_runtime not_found False 0 457 (py ''UNC'') unc (py ''2025'') [] =
     ([], [Warning_failed_to_retrieve (py ''UNC'') 404], 4)"
proof -
  let ?nf = "\<lparr>status_code = 404, content = empty_page\<rparr>"
  let ?ok = "\<lparr>status_code = 200, content = dash_page\<rparr>"
  let ?home = "if contains unc (py ''/sports'') then before_first (py ''/sports'') unc else unc"
  have a1: "aspx_only dash_page (snd (aspx_only dash_page 0 ?home))
      (rstrip_slash unc @ py ''/roster/'' @ py ''2025'') = (Inr ?nf, 2)"
    by (simp add: aspx_only_def unc_roster_urls split del: if_split)
  have a2: "aspx_only dash_page 2 (rstrip_slash unc @ py ''/roster'') = (Inr ?nf, 3)"
    by (simp add: aspx_only_def unc_roster_urls split del: if_split)
  have a3: "aspx_only dash_page 3 (rstrip_slash unc @ py ''/roster.aspx'') = (Inr ?ok, 4)"
    by (simp add: aspx_only_def unc_roster_urls split del: if_split)
  have b1: "not_found (snd (not_found 0 ?home))
      (rstrip_slash unc @ py ''/roster/'' @ py ''2025'') = (Inr ?nf, 2)"
    by (simp add: not_found_def split del: if_split)
  have b2: "not_found 2 (rstrip_slash unc @ py ''/roster'') = (Inr ?nf, 3)"
    by (simp add: not_found_def)
  have b3: "not_found 3 (rstrip_slash unc @ py ''/roster.aspx'') = (Inr ?nf, 4)"
    by (simp add: not_found_def)
  have nf: "status_code ?nf = 404" by simp
  show ?thesis
    using roster_retry_chain [OF a1 nf a2 a3, where rt = ascii_runtime and sp = False
        and tid = 457 and team_name = "py ''UNC''" and divn = "[]"]
      roster_retry_chain [OF b1 nf b2 b3, where rt = ascii_runtime and sp = False
        and tid = 457 and team_name = "py ''UNC''" and divn = "[]"]
    by (simp add: dash_page_players)
qed

text \<open>
  C10. When the roster page is fetched (status 200), the records of \<open>scrape_team\<close> are
  those that \<open>extract_players\<close> finds on the page, whatever \<open>verify_season_on_page\<close>
  says of it; only the log differs, by the warning of a mismatch. The verification holds
  when the page text contains the season, or the season is a number \<open>y\<close> and the text
  contains \<open>y - 1\<close>, a hyphen and the last two digits of \<open>y + 1\<close>.
\<close>

theorem season_check_is_advisory:
  assumes "fetch_roster get
             (snd (get st (if contains base_url (py ''/sports'')
                           then before_first (py ''/sports'') base_url else base_url)))
             base_url (rstrip_slash base_url @ py ''/roster/'' @ seas) = (Inr resp, st1)"
    and "status_code resp = 200"
  shows
    "fst (scrape_team rt get sp st tid team_name base_url seas divn) =
       fst (extract_players rt get sp st1 (content resp) tid team_name seas divn base_url) \<and>
     fst (snd (scrape_team rt get sp st tid team_name base_url seas divn)) =
       (if verify_season_on_page rt (content resp) seas then []
        else [Warning_season_mismatch team_name]) @
       [Info_found team_name
          (length (fst (extract_players rt get sp st1 (content resp) tid team_name seas divn
             base_url)))] \<and>
     (verify_season_on_page rt (content resp) seas \<longleftrightarrow>
        contains (get_text (content resp)) seas \<or>
        (\<exists>y. py_int rt seas = Some y \<and>
           contains (get_text (content resp))
             (str_int (y - 1) @ py ''-'' @ last2 (str_int (y + 1)))))"
  using assms
  by (auto simp: scrape_team_def build_roster_url_eq verify_season_on_page_def Let_def
      split: prod.splits option.splits)

text \<open>
  The roster of Alice Smith without the season on the page, and with it in a heading:
  the same records, and the warning in the log of the first only.
\<close>

theorem season_check_is_advisory_witness:
  "\<not> verify_season_on_page ascii_runtime dash_page (py ''2025'') \<and>
   verify_season_on_page ascii_runtime dated_page (py ''2025'') \<and>
   fst (scrape_team ascii_runtime (counting dash_page) False 0 457 (py ''UNC'') unc
          (py ''2025'') []) =
   fst (scrape_team ascii_runtime (counting dated_page) False 0 457 (py ''UNC'') unc
          (py ''2025'') []) \<and>
   fst (snd (scrape_team ascii_runtime (counting dash_page) False 0 457 (py ''UNC'') unc
          (py ''2025'') [])) =
     [Warning_season_mismatch (py ''UNC''), Info_found (py ''UNC'') 1] \<and>
   fst (snd (scrape_team ascii_runtime (counting dated_page) False 0 457 (py ''UNC'') unc
          (py ''2025'') [])) = [Info_found (py ''UNC'') 1]"
proof -
  let ?home = "if contains unc (py ''/sports'') then before_first (py ''/sports'') unc else unc"
  have a: "fetch_roster (counting page) (snd (counting page 0 ?home)) unc
      (rstrip_slash unc @ py ''/roster/'' @ py ''2025'') =
      (Inr \<lparr>status_code = 200, content = page\<rparr>, 2)" for page
    by (simp add: fetch_roster_def counting_def split del: if_split)
  have ok: "status_code \<lparr>status_code = 200, content = page\<rparr> = 200" for page :: node
    by simp
  show ?thesis
    using season_check_is_advisory [OF a [of dash_page] ok, where rt = ascii_runtime
        and sp = False and tid = 457 and team_name = "py ''UNC''" and divn = "[]"]
      season_check_is_advisory [OF a [of dated_page] ok, where rt = ascii_runtime
        and sp = False and tid = 457 and team_name = "py ''UNC''" and divn = "[]"]
    by (simp add: dash_page_players dated_page_players dash_page_season dated_page_season)
qed

section \<open>Three inputs at which the program and its description part\<close>

text \<open>
  C2. The position text \<^verbatim>\<open>G\<close> followed by U+212A (KELVIN SIGN): under
  \<^verbatim>\<open>re.IGNORECASE\<close> the token \<^verbatim>\<open>GK\<close> matches it, \<^verbatim>\<open>upper()\<close> leaves U+212A as it is, no
  tuple of the chain holds the result, and \<^verbatim>\<open>return pos\<close> returns the two characters:
  a position that is none of GK, D, M, F and not empty.
\<close>

theorem extract_position_kelvin_sign:
  "extract_position ascii_runtime [71, 8490] = [71, 8490] \<and>
   [71, 8490] \<notin> {py ''GK'', py ''D'', py ''M'', py ''F'', []}"
  by (simp add: str_ev rt_ev re_ev pos_ev Let_def split del: if_split)

text \<open>
  C3. A page without roster item whose table has its header in \<^verbatim>\<open>thead\<close>: the two rows
  of its \<^verbatim>\<open>tbody\<close> have two cells each, and only the second gives a record, because the
  first row of the \<^verbatim>\<open>tbody\<close> is passed over as if it were the header.
\<close>

theorem thead_table_loses_first_player:
  "find_all [py ''li''] (Some (py ''sidearm-roster-player'')) thead_page = [] \<and>
   map (\<lambda>row. length (find_all [py ''td'', py ''th''] None row))
     (find_all [py ''tr''] None two_players_body) = [2, 2] \<and>
   map name (fst (extract_players ascii_runtime get False st thead_page tid tm seas divn
     base_url)) = [py ''Bea Jones'']"
  by (simp add: extract_players_def extract_players_from_table_def thead_page_def
      two_players_body_def extract_row_def map_columns_def cell_def cell_text_def
      name_and_url_def str_ev dom_ev rt_ev re_ev pos_ev Let_def split del: if_split)

text \<open>
  C6. A roster item whose class is given as \<^verbatim>\<open>-\<close>: the record has \<^verbatim>\<open>-\<close> for its year.
  The passes over a profile page skip such a value, whatever its label.
\<close>

theorem dash_is_stored_by_roster_pass:
  "map year (fst (extract_players ascii_runtime get False st dash_page tid tm seas divn
     base_url)) = [py ''-''] \<and>
   bio_field rt label (py ''-'') p = p \<and> table_field rt label (py ''-'') p = p"
  by (simp add: dash_page_players bio_field_def table_field_def)

section \<open>The report of a run\<close>

lemma outcomes_teams: "map fst (outcomes scraper ts st) = ts"
  by (induction ts arbitrary: st) (auto simp: Let_def split: prod.splits)

lemma scrape_loop_outcomes:
  "fst (scrape_loop scraper ts acc st) =
     fold (\<lambda>(t, outcome). record_outcome t outcome) (outcomes scraper ts st) acc"
  by (induction ts arbitrary: acc st) (auto simp: Let_def split: prod.splits)

lemma fold_record_outcome:
  "fold (\<lambda>(t, outcome). record_outcome t outcome) os (all_players, m) =
     (all_players @ players_of os,
      \<lparr>zero_player_teams = zero_player_teams m @ zero_entries os,
       failed_teams = failed_teams m @ failed_entries os,
       successful_teams = successful_teams m @ successful_entries os\<rparr>)"
proof (induction os arbitrary: all_players m)
  case Nil
  then show ?case
    by (simp add: players_of_def zero_entries_def failed_entries_def successful_entries_def)
next
  case (Cons x os)
  obtain t outcome where x: "x = (t, outcome)" by (cases x)
  show ?case
  proof (cases outcome)
    case (Inl e)
    then show ?thesis
      using x Cons.IH
      by (simp add: record_outcome_def players_of_def zero_entries_def failed_entries_def
          successful_entries_def)
  next
    case (Inr players)
    then show ?thesis
      using x Cons.IH
      by (simp add: record_outcome_def players_of_def zero_entries_def failed_entries_def
          successful_entries_def)
  qed
qed

lemma entries_partition:
  "length (zero_entries os) + length (failed_entries os) + length (successful_entries os) =
     length os"
proof (induction os)
  case Nil
  then show ?case
    by (simp add: zero_entries_def failed_entries_def successful_entries_def)
next
  case (Cons x os)
  obtain t outcome where x: "x = (t, outcome)" by (cases x)
  show ?case
    using Cons x
    by (cases "report_of outcome")
      (simp_all add: zero_entries_def failed_entries_def successful_entries_def)
qed

lemma standard_outcomes:
  "(t, outcome) \<in> set (outcomes (standard_scraper rt get sp seas) ts st) \<Longrightarrow>
   report_of outcome \<noteq> Failed"
proof (induction ts arbitrary: st)
  case Nil
  then show ?case by simp
next
  case (Cons a ts)
  then show ?case
    by (auto simp: Let_def standard_scraper_def split: prod.splits if_splits)
qed

lemma standard_failed_entries:
  "failed_entries (outcomes (standard_scraper rt get sp seas) ts st) = []"
proof -
  have "filter (\<lambda>(t, outcome). report_of outcome = Failed)
          (outcomes (standard_scraper rt get sp seas) ts st) = []"
    using standard_outcomes [of _ _ rt get sp seas ts st]
    by (auto simp: filter_empty_conv)
  then show ?thesis by (simp add: failed_entries_def)
qed

lemma offline_team:
  "scrape_team rt offline sp () tid tm base_url seas divn =
     ([], [Error_scraping tm (RequestException (py ''connection refused''))], ())"
  by (simp add: scrape_team_def fetch_roster_def offline_def Let_def)

text \<open>
  A site whose every request raises: \<open>scrape_team\<close> logs the error and returns no record,
  and the team is reported among the teams without player, not among the failed ones.
\<close>

theorem offline_team_is_not_reported_failed:
  "fst (snd (scrape_team ascii_runtime offline True () 457 (py ''UNC'') unc (py ''2025'') [])) =
     [Error_scraping (py ''UNC'') (RequestException (py ''connection refused''))] \<and>
   snd (fst (scrape_teams ascii_runtime offline True (py ''2025'') no_report () [unc_team]
     None)) =
     \<lparr>zero_player_teams = [unc_team], failed_teams = [], successful_teams = []\<rparr>"
  by (simp add: offline_team scrape_teams_def teams_to_scrape_def standard_scraper_def
      record_outcome_def no_report_def unc_team_def)

text \<open>
  C5. Every team of a run has one outcome, in the order of the teams, and each outcome
  adds one entry to one list: a call of the scraper that raises, to the failed teams with
  the message of the exception; one that returns no record, to the teams without player;
  one that returns records, to the successful teams with their number, and the records to
  those of the run. The loop goes through all the teams whatever the outcomes.
  \<open>StandardScraper.scrape_team\<close> never raises, so the failed teams of \<open>scrape_teams\<close> stay
  as they were.
\<close>

theorem one_report_list_per_team:
  "map fst (outcomes scraper ts st) = ts \<and>
   fst (scrape_loop scraper ts (all_players, m) st) =
     (all_players @ players_of (outcomes scraper ts st),
      \<lparr>zero_player_teams = zero_player_teams m @ zero_entries (outcomes scraper ts st),
       failed_teams = failed_teams m @ failed_entries (outcomes scraper ts st),
       successful_teams = successful_teams m @ successful_entries (outcomes scraper ts st)\<rparr>) \<and>
   length (zero_entries (outcomes scraper ts st)) +
     length (failed_entries (outcomes scraper ts st)) +
     length (successful_entries (outcomes scraper ts st)) = length ts \<and>
   failed_teams (snd (fst (scrape_teams rt get sp seas m st teams max_teams))) = failed_teams m"
proof -
  have "length (map fst (outcomes scraper ts st)) = length ts"
    by (simp only: outcomes_teams)
  then have "length (outcomes scraper ts st) = length ts"
    by simp
  then show ?thesis
    using entries_partition [of "outcomes scraper ts st"]
    by (simp add: outcomes_teams scrape_loop_outcomes fold_record_outcome scrape_teams_def
        standard_failed_entries)
qed

text \<open>Three teams of the three kinds, for the scraper that raises for the first.\<close>

theorem one_report_list_per_team_witness:
  "fst (scrape_loop moody_scraper [team_number 1, team_number 2, team_number 3]
          ([], no_report) 0) =
     ([a_defender],
      \<lparr>zero_player_teams = [team_number 2],
       failed_teams = [(team_number 1, py ''boom'')],
       successful_teams = [(py ''Team'', 3, 1)]\<rparr>)"
  using one_report_list_per_team [of moody_scraper "[team_number 1, team_number 2, team_number 3]"
      0 "[]" no_report]
  by (simp add: moody_scraper_def team_number_def no_report_def players_of_def zero_entries_def
      failed_entries_def successful_entries_def)

section \<open>Fields are written once by the passes over a profile page\<close>







































section \<open>The split of a home town and a high school\<close>

lemma star_all:
  "(\<And>c. c \<in> set w \<Longrightarrow> P c) \<Longrightarrow> r = [] \<or> \<not> P (hd r) \<Longrightarrow>
   (\<And>n. n < length w \<Longrightarrow> k (b @ take n w) (drop n w @ r) = None) \<Longrightarrow>
   star P k b (w @ r) = k (b @ w) r"
proof (induction w arbitrary: b)
  case Nil
  then show ?case by (cases r) auto
next
  case (Cons c w)
  have "star P k (b @ [c]) (w @ r) = k ((b @ [c]) @ w) r"
  proof (rule Cons.IH)
    show "\<And>x. x \<in> set w \<Longrightarrow> P x" using Cons.prems(1) by simp
    show "r = [] \<or> \<not> P (hd r)" by (rule Cons.prems(2))
    show "\<And>n. n < length w \<Longrightarrow> k ((b @ [c]) @ take n w) (drop n w @ r) = None"
      using Cons.prems(3) [of "Suc n" for n] by simp
  qed
  moreover have "k b (c # w @ r) = None"
    using Cons.prems(3) [of 0] by simp
  moreover have "P c" using Cons.prems(1) by simp
  ultimately show ?case by (simp split: option.splits)
qed

lemma star_none:
  "(\<And>n. n \<le> length (takeWhile P r) \<Longrightarrow> k (b @ take n r) (drop n r) = None) \<Longrightarrow>
   star P k b r = None"
proof (induction r arbitrary: b)
  case Nil
  then show ?case using Nil [of 0] by simp
next
  case (Cons c r)
  have here: "k b (c # r) = None" using Cons.prems [of 0] by simp
  show ?case
  proof (cases "P c")
    case True
    have "star P k (b @ [c]) r = None"
    proof (rule Cons.IH)
      fix n assume "n \<le> length (takeWhile P r)"
      then show "k ((b @ [c]) @ take n r) (drop n r) = None"
        using Cons.prems [of "Suc n"] True by simp
    qed
    with here True show ?thesis by simp
  next
    case False
    with here show ?thesis by simp
  qed
qed

lemma star_total:
  "(\<And>b r. k b r \<noteq> None) \<Longrightarrow> star P k b r = k (b @ takeWhile P r) (dropWhile P r)"
proof (induction r arbitrary: b)
  case Nil
  show ?case by simp
next
  case (Cons c r)
  show ?case
  proof (cases "P c")
    case True
    have "star P k (b @ [c]) r = k ((b @ [c]) @ takeWhile P r) (dropWhile P r)"
      by (rule Cons.IH) (rule Cons.prems)
    moreover have "k ((b @ [c]) @ takeWhile P r) (dropWhile P r) \<noteq> None"
      by (rule Cons.prems)
    ultimately show ?thesis using True by (auto split: option.splits)
  next
    case False
    then show ?thesis by simp
  qed
qed

lemma not_space_47: "\<not> isspace 47"
  by (simp add: isspace_def)

lemma space_10: "isspace 10"
  by (simp add: isspace_def)

text \<open>The second group: the rest of the line, when it starts here.\<close>

lemma rest_group:
  "grp (plus (\<lambda>c. c \<noteq> 10)) (\<lambda>g2 b r. Some (g1, g2)) b r =
     (case r of [] \<Rightarrow> None
      | c # cs \<Rightarrow> if c \<noteq> 10 then Some (g1, c # takeWhile (\<lambda>c. c \<noteq> 10) cs) else None)"
proof (cases r)
  case Nil
  then show ?thesis by (simp add: grp_def plus_def chr_if_def)
next
  case (Cons c cs)
  have "star (\<lambda>c. c \<noteq> 10) (\<lambda>b' r'. Some (g1, drop (length b) b')) (b @ [c]) cs =
      Some (g1, drop (length b) ((b @ [c]) @ takeWhile (\<lambda>c. c \<noteq> 10) cs))"
    by (rule star_total) simp
  then show ?thesis
    using Cons by (simp add: grp_def plus_def chr_if_def)
qed

lemma strip_spaces: "\<forall>c\<in>set w. isspace c \<Longrightarrow> strip w = []"
proof -
  assume "\<forall>c\<in>set w. isspace c"
  then have "dropWhile isspace w = []" by simp
  then show ?thesis by (simp only: strip_def lstrip_def rstrip_def) simp
qed

lemma lstrip_spaces: "\<forall>c\<in>set w. isspace c \<Longrightarrow> lstrip (w @ r) = lstrip r"
  by (simp add: lstrip_def dropWhile_append)

lemma strip_append_spaces: "\<forall>c\<in>set w. isspace c \<Longrightarrow> strip (x @ w) = strip x"
proof (cases "\<forall>c\<in>set x. isspace c")
  case True
  assume "\<forall>c\<in>set w. isspace c"
  with True have "\<forall>c\<in>set (x @ w). isspace c" by auto
  then have "strip (x @ w) = []" by (rule strip_spaces)
  moreover have "strip x = []" using True by (rule strip_spaces)
  ultimately show ?thesis by simp
next
  case False
  assume w: "\<forall>c\<in>set w. isspace c"
  from False obtain c where "c \<in> set x" "\<not> isspace c" by blast
  then have "dropWhile isspace (x @ w) = dropWhile isspace x @ w"
    by (rule dropWhile_append1)
  then have "strip (x @ w) = rstrip (lstrip x @ w)"
    by (simp add: strip_def lstrip_def)
  also have "\<dots> = rstrip (lstrip x)"
    using w by (rule rstrip_append_spaces)
  finally show ?thesis by (simp add: strip_def)
qed

text \<open>After the slash: whitespace, given back as far as the second group needs it.\<close>

lemma after_slash:
  "if \<forall>c\<in>set t. c = 10
   then star isspace (grp (plus (\<lambda>c. c \<noteq> 10)) (\<lambda>g2 b r. Some (g1, g2))) b t = None
   else \<exists>g2. star isspace (grp (plus (\<lambda>c. c \<noteq> 10)) (\<lambda>g2 b r. Some (g1, g2))) b t =
            Some (g1, g2) \<and>
          strip g2 = strip (takeWhile (\<lambda>c. c \<noteq> 10) (lstrip t))"
proof (induction t arbitrary: b)
  case Nil
  show ?case by (simp add: rest_group)
next
  case (Cons c cs)
  let ?K = "grp (plus (\<lambda>c. c \<noteq> 10)) (\<lambda>g2 b r. Some (g1, g2))"
  show ?case
  proof (cases "isspace c")
    case False
    then have c: "c \<noteq> 10" using space_10 by auto
    have "star isspace ?K b (c # cs) = Some (g1, c # takeWhile (\<lambda>c. c \<noteq> 10) cs)"
      using False c by (simp add: rest_group)
    moreover have "lstrip (c # cs) = c # cs"
      using False by (simp add: lstrip_def)
    ultimately show ?thesis using c by simp
  next
    case True
    show ?thesis
    proof (cases "\<forall>x\<in>set cs. x = 10")
      case all: True
      have inner: "star isspace ?K (b @ [c]) cs = None"
        using Cons.IH [of "b @ [c]"] all by simp
      have tw: "takeWhile (\<lambda>c. c \<noteq> 10) cs = []"
        using all by (cases cs) auto
      show ?thesis
      proof (cases "c = 10")
        case True
        then show ?thesis
          using inner all \<open>isspace c\<close> by (simp add: rest_group)
      next
        case False
        have sp: "\<forall>x\<in>set (c # cs). isspace x"
          using all \<open>isspace c\<close> space_10 by auto
        then have "lstrip (c # cs) = []"
          by (simp add: lstrip_def)
        moreover have "strip [c] = []"
          using \<open>isspace c\<close> by (simp add: strip_spaces)
        moreover have "star isspace ?K b (c # cs) = Some (g1, [c])"
          using inner False \<open>isspace c\<close> tw by (simp add: rest_group)
        ultimately show ?thesis
          using False by (simp add: strip_spaces)
      qed
    next
      case some: False
      have "\<exists>g2. star isspace ?K (b @ [c]) cs = Some (g1, g2) \<and>
          strip g2 = strip (takeWhile (\<lambda>c. c \<noteq> 10) (lstrip cs))"
        using Cons.IH [of "b @ [c]"] by (simp only: some if_False)
      then obtain g2 where g2: "star isspace ?K (b @ [c]) cs = Some (g1, g2)"
          "strip g2 = strip (takeWhile (\<lambda>c. c \<noteq> 10) (lstrip cs))"
        by blast
      have l: "lstrip (c # cs) = lstrip cs"
        using True by (simp add: lstrip_def)
      have ne: "\<not> (\<forall>x\<in>set (c # cs). x = 10)"
        using some by simp
      have "star isspace ?K b (c # cs) = Some (g1, g2)"
        using True g2(1) by simp
      then have "\<exists>g2. star isspace ?K b (c # cs) = Some (g1, g2) \<and>
          strip g2 = strip (takeWhile (\<lambda>c. c \<noteq> 10) (lstrip (c # cs)))"
        using g2(2) by (simp only: l) simp
      then show ?thesis
        by (simp only: ne if_False)
    qed
  qed
qed

text \<open>Before the slash: whitespace, and nothing else.\<close>

lemma before_slash:
  "\<forall>c\<in>set w. isspace c \<Longrightarrow>
   star isspace (chr_if (\<lambda>c. c = 47) k) b (w @ 47 # t) = k (b @ w @ [47]) t"
proof -
  assume w: "\<forall>c\<in>set w. isspace c"
  have "star isspace (chr_if (\<lambda>c. c = 47) k) b (w @ 47 # t) =
      chr_if (\<lambda>c. c = 47) k (b @ w) (47 # t)"
  proof (rule star_all)
    show "\<And>c. c \<in> set w \<Longrightarrow> isspace c" using w by simp
    show "47 # t = [] \<or> \<not> isspace (hd (47 # t))" by (simp add: not_space_47)
    fix n assume n: "n < length w"
    then have "drop n w = w ! n # drop (Suc n) w"
      by (simp add: Cons_nth_drop_Suc)
    moreover have "w ! n \<noteq> 47"
      using w n not_space_47 nth_mem by metis
    ultimately show "chr_if (\<lambda>c. c = 47) k (b @ take n w) (drop n w @ 47 # t) = None"
      by (simp add: chr_if_def)
  qed
  then show ?thesis by (simp add: chr_if_def)
qed

lemma no_slash_next:
  "dropWhile isspace r = [] \<or> hd (dropWhile isspace r) \<noteq> 47 \<Longrightarrow>
   star isspace (chr_if (\<lambda>c. c = 47) k) b r = None"
proof (rule star_none)
  fix n
  assume h: "dropWhile isspace r = [] \<or> hd (dropWhile isspace r) \<noteq> 47"
    and n: "n \<le> length (takeWhile isspace r)"
  show "chr_if (\<lambda>c. c = 47) k (b @ take n r) (drop n r) = None"
  proof (cases "drop n r")
    case Nil
    then show ?thesis by (simp add: chr_if_def)
  next
    case (Cons d ds)
    have "d \<noteq> 47"
    proof (cases "n < length (takeWhile isspace r)")
      case True
      then have "r ! n = takeWhile isspace r ! n"
        by (simp add: takeWhile_nth)
      moreover have "isspace (takeWhile isspace r ! n)"
        using True nth_mem set_takeWhileD by metis
      moreover have "d = r ! n"
        using Cons by (metis nth_via_drop)
      ultimately show ?thesis using not_space_47 by auto
    next
      case False
      with n have "n = length (takeWhile isspace r)" by simp
      then have "drop n r = dropWhile isspace r"
        by (simp add: dropWhile_eq_drop)
      then have e: "dropWhile isspace r = d # ds"
        using Cons by simp
      show ?thesis
        using h unfolding e by simp
    qed
    then show ?thesis using Cons by (simp add: chr_if_def)
  qed
qed

text \<open>The pattern after the first group, at a position before the first slash.\<close>

lemma after_town_spaces:
  "\<forall>c\<in>set w. isspace c \<Longrightarrow>
   if \<forall>c\<in>set rest. c = 10 then after_town g1 b (w @ 47 # rest) = None
   else \<exists>g2. after_town g1 b (w @ 47 # rest) = Some (g1, g2) \<and>
          strip g2 = strip (takeWhile (\<lambda>c. c \<noteq> 10) (lstrip rest))"
  using after_slash [of rest g1 "b @ w @ [47]"]
  by (simp add: after_town_def before_slash)

lemma after_town_word:
  "47 \<notin> set x \<Longrightarrow> \<not> (\<forall>c\<in>set x. isspace c) \<Longrightarrow> after_town g1 b (x @ r) = None"
proof -
  assume x: "47 \<notin> set x" and ns: "\<not> (\<forall>c\<in>set x. isspace c)"
  then obtain c where c: "c \<in> set x" "\<not> isspace c" by blast
  then have d: "dropWhile isspace (x @ r) = dropWhile isspace x @ r"
    by (rule dropWhile_append1)
  have ne: "dropWhile isspace x \<noteq> []"
    using c by (auto simp: dropWhile_eq_Nil_conv)
  then have "hd (dropWhile isspace x) \<in> set x"
    using hd_in_set set_dropWhileD by metis
  then have "hd (dropWhile isspace (x @ r)) \<noteq> 47"
    using x d ne by auto
  then show ?thesis
    unfolding after_town_def by (intro no_slash_next) simp
qed

lemma after_town_end: "after_town g1 b [] = None"
  by (simp add: after_town_def chr_if_def)

text \<open>The first group: the shortest text after which the rest of the pattern matches.\<close>

lemma lazy_no_slash:
  "47 \<notin> set x \<Longrightarrow> lazy_star (\<lambda>c. c \<noteq> 47) (\<lambda>b r. after_town b b r) b x = None"
proof (induction x arbitrary: b)
  case Nil
  show ?case by (simp add: after_town_end)
next
  case (Cons c x)
  have "after_town b b (c # x) = None"
  proof (cases "\<forall>d\<in>set (c # x). isspace d")
    case True
    then have "dropWhile isspace (c # x) = []" by simp
    then show ?thesis
      unfolding after_town_def by (intro no_slash_next) simp
  next
    case False
    then show ?thesis
      using after_town_word [of "c # x" b b "[]"] Cons.prems by simp
  qed
  then show ?case using Cons by simp
qed

lemma lazy_no_rest:
  "47 \<notin> set x \<Longrightarrow> \<forall>c\<in>set rest. c = 10 \<Longrightarrow>
   lazy_star (\<lambda>c. c \<noteq> 47) (\<lambda>b r. after_town b b r) b (x @ 47 # rest) = None"
proof (induction x arbitrary: b)
  case Nil
  have "after_town b b (47 # rest) = None"
    using after_town_spaces [of "[]" rest b b] Nil by simp
  then show ?case by simp
next
  case (Cons c x)
  have "after_town b b ((c # x) @ 47 # rest) = None"
  proof (cases "\<forall>d\<in>set (c # x). isspace d")
    case True
    then show ?thesis
      using after_town_spaces [of "c # x" rest b b] Cons.prems by simp
  next
    case False
    then show ?thesis
      using after_town_word [of "c # x" b b "47 # rest"] Cons.prems by simp
  qed
  then show ?case using Cons by simp
qed

lemma lazy_split:
  "47 \<notin> set x \<Longrightarrow> \<exists>c\<in>set rest. c \<noteq> 10 \<Longrightarrow>
   \<exists>g1 g2. lazy_star (\<lambda>c. c \<noteq> 47) (\<lambda>b r. after_town b b r) b (x @ 47 # rest) = Some (g1, g2) \<and>
     strip g1 = strip (b @ x) \<and>
     strip g2 = strip (takeWhile (\<lambda>c. c \<noteq> 10) (lstrip rest))"
proof (induction x arbitrary: b)
  case Nil
  have some: "\<not> (\<forall>c\<in>set rest. c = 10)"
    using Nil by blast
  have "\<exists>g2. after_town b b ([] @ 47 # rest) = Some (b, g2) \<and>
      strip g2 = strip (takeWhile (\<lambda>c. c \<noteq> 10) (lstrip rest))"
    using after_town_spaces [of "[]" rest b b] by (simp only: some if_False) simp
  then obtain g2 where "after_town b b (47 # rest) = Some (b, g2)"
      "strip g2 = strip (takeWhile (\<lambda>c. c \<noteq> 10) (lstrip rest))"
    by auto
  then show ?case by simp
next
  case (Cons c x)
  show ?case
  proof (cases "\<forall>d\<in>set (c # x). isspace d")
    case True
    have some: "\<not> (\<forall>c\<in>set rest. c = 10)"
      using Cons.prems by blast
    have "\<exists>g2. after_town b b ((c # x) @ 47 # rest) = Some (b, g2) \<and>
        strip g2 = strip (takeWhile (\<lambda>c. c \<noteq> 10) (lstrip rest))"
      using after_town_spaces [of "c # x" rest b b, OF True] by (simp only: some if_False)
    then obtain g2 where g2: "after_town b b ((c # x) @ 47 # rest) = Some (b, g2)"
        "strip g2 = strip (takeWhile (\<lambda>c. c \<noteq> 10) (lstrip rest))"
      by blast
    have "strip (b @ c # x) = strip b"
      using True by (rule strip_append_spaces)
    then show ?thesis using g2 by simp
  next
    case False
    have "after_town b b ((c # x) @ 47 # rest) = None"
      using after_town_word [of "c # x" b b "47 # rest"] False Cons.prems by simp
    moreover have "47 \<notin> set x"
      using Cons.prems by simp
    then have "\<exists>g1 g2.
        lazy_star (\<lambda>c. c \<noteq> 47) (\<lambda>b r. after_town b b r) (b @ [c]) (x @ 47 # rest) =
           Some (g1, g2) \<and>
        strip g1 = strip ((b @ [c]) @ x) \<and>
        strip g2 = strip (takeWhile (\<lambda>c. c \<noteq> 10) (lstrip rest))"
      using Cons.prems(2) by (rule Cons.IH)
    then obtain g1 g2 where
        "lazy_star (\<lambda>c. c \<noteq> 47) (\<lambda>b r. after_town b b r) (b @ [c]) (x @ 47 # rest) =
           Some (g1, g2)"
        "strip g1 = strip ((b @ [c]) @ x)"
        "strip g2 = strip (takeWhile (\<lambda>c. c \<noteq> 10) (lstrip rest))"
      by blast
    ultimately show ?thesis using Cons.prems by simp
  qed
qed

lemma hometown_re_eq:
  "re_match hometown_re s =
     chr_if (\<lambda>c. c \<noteq> 47) (lazy_star (\<lambda>c. c \<noteq> 47) (\<lambda>b r. after_town b b r)) [] s"
  by (simp add: re_match_def hometown_re_def grp_def lazy_plus_def after_town_def)

lemma match_no_slash: "47 \<notin> set s \<Longrightarrow> re_match hometown_re s = None"
  by (cases s) (simp_all add: hometown_re_eq chr_if_def lazy_no_slash)

lemma match_no_town: "re_match hometown_re (47 # rest) = None"
  by (simp add: hometown_re_eq chr_if_def)

lemma match_no_rest:
  "47 \<notin> set pre \<Longrightarrow> \<forall>c\<in>set rest. c = 10 \<Longrightarrow> re_match hometown_re (pre @ 47 # rest) = None"
  by (cases pre) (simp_all add: hometown_re_eq chr_if_def lazy_no_rest)

lemma match_split:
  "47 \<notin> set pre \<Longrightarrow> pre \<noteq> [] \<Longrightarrow> \<exists>c\<in>set rest. c \<noteq> 10 \<Longrightarrow>
   \<exists>g1 g2. re_match hometown_re (pre @ 47 # rest) = Some (g1, g2) \<and> strip g1 = strip pre \<and>
     strip g2 = strip (takeWhile (\<lambda>c. c \<noteq> 10) (lstrip rest))"
proof -
  assume p: "47 \<notin> set pre" "pre \<noteq> []" and r: "\<exists>c\<in>set rest. c \<noteq> 10"
  obtain c x where pre: "pre = c # x" using p by (cases pre) auto
  have "47 \<notin> set x" using p pre by simp
  then show ?thesis
    using lazy_split [of x rest "[c]"] r p pre
    by (simp add: hometown_re_eq chr_if_def)
qed

lemma split_at_first_slash_eq:
  "47 \<notin> set pre \<Longrightarrow> split_at_first_slash (pre @ 47 # rest) = (strip pre, strip rest)"
proof -
  assume p: "47 \<notin> set pre"
  have t: "takeWhile (\<lambda>c. c \<noteq> 47) (pre @ 47 # rest) = pre"
    using p by (induction pre) auto
  have d: "dropWhile (\<lambda>c. c \<noteq> 47) (pre @ 47 # rest) = 47 # rest"
    using p by (induction pre) auto
  show ?thesis
    by (simp add: split_at_first_slash_def t d)
qed

text \<open>
  The function does not split every text at its first slash: a text that ends with the
  slash, or begins with it, is returned whole, the slash included; and the second part
  ends with the line.
\<close>

theorem first_slash_is_not_always_split:
  "extract_hometown_parts (py ''Boston, MA /'') = (py ''Boston, MA /'', []) \<and>
   split_at_first_slash (py ''Boston, MA /'') = (py ''Boston, MA'', []) \<and>
   extract_hometown_parts (py ''/ Central HS'') = (py ''/ Central HS'', []) \<and>
   split_at_first_slash (py ''/ Central HS'') = ([], py ''Central HS'') \<and>
   extract_hometown_parts (py ''Boston, MA / Central HS'' @ [10] @ py ''Class of 2021'') =
     (py ''Boston, MA'', py ''Central HS'') \<and>
   split_at_first_slash (py ''Boston, MA / Central HS'' @ [10] @ py ''Class of 2021'') =
     (py ''Boston, MA'', py ''Central HS'' @ [10] @ py ''Class of 2021'')"
  by (simp add: extract_hometown_parts_def hometown_re_def split_at_first_slash_def
      str_ev re_ev split del: if_split)

text \<open>
  C8. A text without a slash is returned trimmed, with an empty second
  part. A text with a slash is returned in the same way, whole, when nothing stands before
  its first slash or nothing but line feeds stands after it. Otherwise the first part is
  the text before the first slash, trimmed, and the second part is what follows the slash
  and the whitespace after it, up to the end of the line, trimmed. When something stands
  on both sides of the first slash and no line feed follows it, this is the split of the
  text at its first slash, each side trimmed.
\<close>

theorem extract_hometown_parts_split:
  "(47 \<notin> set s \<longrightarrow> extract_hometown_parts s = (strip s, [])) \<and>
   (47 \<notin> set p \<and> (p = [] \<or> (\<forall>c\<in>set r. c = 10)) \<longrightarrow>
      extract_hometown_parts (p @ 47 # r) = (strip (p @ 47 # r), [])) \<and>
   (47 \<notin> set pre \<and> pre \<noteq> [] \<and> (\<exists>c\<in>set rest. c \<noteq> 10) \<longrightarrow>
      extract_hometown_parts (pre @ 47 # rest) =
        (strip pre, strip (takeWhile (\<lambda>c. c \<noteq> 10) (lstrip rest)))) \<and>
   (47 \<notin> set pre \<and> pre \<noteq> [] \<and> rest \<noteq> [] \<and> 10 \<notin> set rest \<longrightarrow>
      extract_hometown_parts (pre @ 47 # rest) = split_at_first_slash (pre @ 47 # rest))"
proof (intro conjI impI)
  assume "47 \<notin> set s"
  then show "extract_hometown_parts s = (strip s, [])"
    by (simp add: extract_hometown_parts_def match_no_slash strip_spaces)
next
  assume a: "47 \<notin> set p \<and> (p = [] \<or> (\<forall>c\<in>set r. c = 10))"
  have "re_match hometown_re (p @ 47 # r) = None"
  proof (cases "p = []")
    case True
    then show ?thesis by (simp add: match_no_town)
  next
    case False
    with a show ?thesis by (simp add: match_no_rest)
  qed
  then show "extract_hometown_parts (p @ 47 # r) = (strip (p @ 47 # r), [])"
    by (simp add: extract_hometown_parts_def)
next
  assume a: "47 \<notin> set pre \<and> pre \<noteq> [] \<and> (\<exists>c\<in>set rest. c \<noteq> 10)"
  then obtain g1 g2 where "re_match hometown_re (pre @ 47 # rest) = Some (g1, g2)"
      "strip g1 = strip pre" "strip g2 = strip (takeWhile (\<lambda>c. c \<noteq> 10) (lstrip rest))"
    using match_split [of pre rest] by auto
  then show "extract_hometown_parts (pre @ 47 # rest) =
      (strip pre, strip (takeWhile (\<lambda>c. c \<noteq> 10) (lstrip rest)))"
    by (simp add: extract_hometown_parts_def)
next
  assume a: "47 \<notin> set pre \<and> pre \<noteq> [] \<and> rest \<noteq> [] \<and> 10 \<notin> set rest"
  then have ex: "\<exists>c\<in>set rest. c \<noteq> 10"
    by (cases rest) auto
  obtain g1 g2 where m: "re_match hometown_re (pre @ 47 # rest) = Some (g1, g2)"
      "strip g1 = strip pre" "strip g2 = strip (takeWhile (\<lambda>c. c \<noteq> 10) (lstrip rest))"
    using match_split [of pre rest] a ex by auto
  have "10 \<notin> set (lstrip rest)"
    using a set_dropWhileD [of 10 isspace rest] by (auto simp: lstrip_def)
  then have tw: "takeWhile (\<lambda>c. c \<noteq> 10) (lstrip rest) = lstrip rest"
    by (simp add: takeWhile_eq_all_conv) metis
  have sl: "strip (lstrip rest) = strip rest"
    by (simp add: strip_def lstrip_def)
  have "strip g2 = strip rest"
    by (simp only: m(3) tw sl)
  then show "extract_hometown_parts (pre @ 47 # rest) = split_at_first_slash (pre @ 47 # rest)"
    using m a by (simp add: extract_hometown_parts_def split_at_first_slash_eq)
qed

text \<open>The four cases, at \<^verbatim>\<open>Boston, MA\<close>, a text ending with a slash and a line feed, and
  \<^verbatim>\<open>Boston, MA / Central HS\<close>.\<close>

theorem extract_hometown_parts_split_witness:
  "extract_hometown_parts (py ''Boston, MA'') = (py ''Boston, MA'', []) \<and>
   extract_hometown_parts (py ''Dover, NH /'' @ [10]) = (py ''Dover, NH /'', []) \<and>
   extract_hometown_parts (py ''Boston, MA / Central HS'') =
     (py ''Boston, MA'', py ''Central HS'') \<and>
   split_at_first_slash (py ''Boston, MA / Central HS'') =
     (py ''Boston, MA'', py ''Central HS'')"
  using extract_hometown_parts_split [of "py ''Boston, MA''" "py ''Dover, NH ''" "[10]"
      "py ''Boston, MA ''" "py '' Central HS''"]
  by (simp add: split_at_first_slash_def str_ev split del: if_split)


end
